theory Spec2Isabelle
  imports Main "HOL-Library.Word"
begin

unbundle bit_operations_syntax

section \<open>JavaScript values as the code handles them\<close>

text \<open>
  The authentication module (\<^verbatim>\<open>scripts/lib/auth.ts\<close>) is embedded function by function.
  A thrown \<^verbatim>\<open>new Error(message)\<close> is the value \<open>Error message\<close>; a function that can
  throw returns \<open>js_error + 'a\<close> with \<open>Inl\<close> for the throw. A property that may be
  \<^verbatim>\<open>undefined\<close> (a field of a parsed JSON object, the result of
  \<^verbatim>\<open>searchParams.get\<close>) is a \<open>string option\<close> with \<open>None\<close> for undefined or null.
\<close>

datatype js_error = Error string

text \<open>
  JavaScript truthiness, as \<^verbatim>\<open>if (x)\<close> and \<^verbatim>\<open>x || y\<close> read it: undefined, null and
  the empty string are falsy, and so is the number 0.
\<close>

definition truthy :: "string option \<Rightarrow> bool" where
  "truthy v = (case v of None \<Rightarrow> False | Some s \<Rightarrow> s \<noteq> [])"

definition js_or :: "string option \<Rightarrow> string option \<Rightarrow> string option" where
  "js_or a b = (if truthy a then a else b)"

definition num_or :: "int option \<Rightarrow> int \<Rightarrow> int" where
  "num_or a d = (case a of None \<Rightarrow> d | Some n \<Rightarrow> if n = 0 then d else n)"

text \<open>String conversion of a possibly undefined value (template literals, URLSearchParams).\<close>

definition js_string :: "string option \<Rightarrow> string" where
  "js_string v = (case v of None \<Rightarrow> ''undefined'' | Some s \<Rightarrow> s)"

text \<open>\<^verbatim>\<open>String.prototype.trim\<close> on the ASCII white space characters.\<close>

definition is_space :: "char \<Rightarrow> bool" where
  "is_space c = (c = CHR '' '' \<or> c = CHR 0x09 \<or> c = CHR 0x0A \<or> c = CHR 0x0B
     \<or> c = CHR 0x0C \<or> c = CHR 0x0D)"

definition js_trim :: "string \<Rightarrow> string" where
  "js_trim s = rev (dropWhile is_space (rev (dropWhile is_space s)))"

section \<open>Data model\<close>

record Credentials =
  client_id :: string
  client_secret :: string

text \<open>
  \<^verbatim>\<open>interface TokenData\<close>. The interface declares every field a string, but the values
  come from an untyped provider response, so a field can be undefined at run time;
  \<^verbatim>\<open>JSON.stringify\<close> then leaves it out of the file and \<^verbatim>\<open>JSON.parse\<close> reads it back as
  undefined. A token file is therefore held as its parsed record (a file at a token path
  that is not JSON is outside the model), and times are integers in milliseconds.
\<close>

record TokenData =
  access_token :: "string option"
  refresh_token :: "string option"
  expires_at :: int
  scope :: "string option"
  token_type :: "string option"

text \<open>The parsed body of a token endpoint response (\<^verbatim>\<open>data\<close>, of type any).\<close>

record provider_data =
  resp_error :: "string option"
  resp_error_description :: "string option"
  resp_access_token :: "string option"
  resp_refresh_token :: "string option"
  resp_expires_in :: "int option"
  resp_scope :: "string option"
  resp_token_type :: "string option"

text \<open>The parsed credentials file: an object whose two fields may be missing.\<close>

record creds_json =
  cj_client_id :: "string option"
  cj_client_secret :: "string option"

text \<open>What \<^verbatim>\<open>output(data)\<close> prints for the auth command: \<^verbatim>\<open>{authenticated, tokenPath}\<close>.\<close>

datatype output_value = AuthOutput bool string

text \<open>A form body, as \<^verbatim>\<open>URLSearchParams\<close> holds it: names and values in order.\<close>

type_synonym form = "(string \<times> string) list"

text \<open>
  Everything outside the program that it reads or changes: the environment, the files,
  the 1Password CLI, the clock, the random source, the token endpoint and standard
  output. Every function takes the world and returns it changed.
  \<^item> \<open>token_files\<close> maps a path to the parsed token file there (\<open>None\<close>: no such file);
  \<^item> \<open>creds_file\<close> is the parsed credentials file (\<open>None\<close>: missing or not JSON);
  \<^item> \<open>op_read\<close> is the output of \<^verbatim>\<open>op read "ref"\<close> (\<open>None\<close>: the command fails);
  \<^item> \<open>clock\<close> lists the readings of \<^verbatim>\<open>Date.now()\<close>, \<open>clock_reads\<close> counts those taken;
  \<^item> \<open>rng\<close> is the stream of bytes \<^verbatim>\<open>crypto.randomBytes\<close> draws from;
  \<^item> \<open>provider\<close> answers a POST to the token endpoint: a parsed body, or the error
    \<^verbatim>\<open>fetch\<close> or \<^verbatim>\<open>response.json()\<close> throws; \<open>requests\<close> logs the POSTs made;
  \<^item> \<open>stdout\<close> lists what \<^verbatim>\<open>output\<close> has printed.
  Writes to the file system are taken to succeed; messages on standard error are not
  modelled.
\<close>

record world =
  cwd :: string
  homedir :: string
  xdg_config_home :: "string option"
  token_files :: "string \<Rightarrow> TokenData option"
  creds_file :: "creds_json option"
  gitignore :: "string option"
  op_available :: bool
  op_read :: "string \<Rightarrow> string option"
  clock :: "nat \<Rightarrow> int"
  clock_reads :: nat
  rng :: "nat \<Rightarrow> 8 word"
  rng_pos :: nat
  provider :: "form \<Rightarrow> js_error + provider_data"
  requests :: "form list"
  stdout :: "output_value list"

definition Date_now :: "world \<Rightarrow> int \<times> world" where
  "Date_now w = (clock w (clock_reads w), w\<lparr>clock_reads := Suc (clock_reads w)\<rparr>)"

definition randomBytes :: "nat \<Rightarrow> world \<Rightarrow> 8 word list \<times> world" where
  "randomBytes n w = (map (rng w) [rng_pos w ..< rng_pos w + n], w\<lparr>rng_pos := rng_pos w + n\<rparr>)"

text \<open>\<^verbatim>\<open>fetch(MS_TOKEN_URL, {method: "POST", body})\<close> followed by \<^verbatim>\<open>response.json()\<close>.\<close>

definition fetch_token :: "form \<Rightarrow> world \<Rightarrow> (js_error + provider_data) \<times> world" where
  "fetch_token body w = (provider w body, w\<lparr>requests := requests w @ [body]\<rparr>)"

section \<open>Configuration\<close>

text \<open>\<^verbatim>\<open>path.join\<close>: the segments joined by a slash (normalisation is not modelled).\<close>

fun path_join :: "string list \<Rightarrow> string" where
  "path_join [] = ''.''"
| "path_join [a] = a"
| "path_join (a # b # r) = a @ ''/'' @ path_join (b # r)"

definition OP_CLIENT_ID_REF :: string where
  "OP_CLIENT_ID_REF = ''op://Personal/Microsoft Client ID/notesPlain''"

definition OP_CLIENT_SECRET_REF :: string where
  "OP_CLIENT_SECRET_REF = ''op://Personal/Microsoft Client Secret/notesPlain''"

definition getGlobalConfigDir :: "world \<Rightarrow> string" where
  "getGlobalConfigDir w =
     (let xdgConfig = (if truthy (xdg_config_home w) then js_string (xdg_config_home w)
                       else path_join [homedir w, ''.config''])
      in path_join [xdgConfig, ''microsoft-skill''])"

definition PROJECT_TOKEN_DIR :: string where
  "PROJECT_TOKEN_DIR = ''.claude''"

definition PROJECT_TOKEN_FILE :: string where
  "PROJECT_TOKEN_FILE = ''microsoft-skill.local.json''"

definition GLOBAL_TOKEN_FILE :: string where
  "GLOBAL_TOKEN_FILE = ''tokens.json''"

definition getProjectTokenPath :: "world \<Rightarrow> string" where
  "getProjectTokenPath w = path_join [cwd w, PROJECT_TOKEN_DIR, PROJECT_TOKEN_FILE]"

definition getGlobalTokenPath :: "world \<Rightarrow> string" where
  "getGlobalTokenPath w = path_join [getGlobalConfigDir w, GLOBAL_TOKEN_FILE]"

definition CALLBACK_URL :: string where
  "CALLBACK_URL = ''http://localhost:3000/callback''"

definition SCOPES :: string where
  "SCOPES = ''User.Read Mail.Read offline_access''"

section \<open>Credential and token management\<close>

definition is1PasswordAvailable :: "world \<Rightarrow> bool" where
  "is1PasswordAvailable w = op_available w"

definition readFrom1Password :: "string \<Rightarrow> world \<Rightarrow> string option" where
  "readFrom1Password reference w = map_option js_trim (op_read w reference)"

definition loadCredentialsFrom1Password :: "world \<Rightarrow> Credentials option" where
  "loadCredentialsFrom1Password w =
     (let clientId = readFrom1Password OP_CLIENT_ID_REF w;
          clientSecret = readFrom1Password OP_CLIENT_SECRET_REF w
      in if truthy clientId \<and> truthy clientSecret
         then Some \<lparr>client_id = js_string clientId, client_secret = js_string clientSecret\<rparr>
         else None)"

text \<open>
  \<^verbatim>\<open>loadCredentials\<close>: the credentials file when it parses and both fields are truthy
  (any failure in the \<^verbatim>\<open>try\<close> block is swallowed), then 1Password, then the throw.
\<close>

definition credentials_from_file :: "world \<Rightarrow> Credentials option" where
  "credentials_from_file w =
     (case creds_file w of
        None \<Rightarrow> None
      | Some d \<Rightarrow>
          if truthy (cj_client_id d) \<and> truthy (cj_client_secret d)
          then Some \<lparr>client_id = js_string (cj_client_id d),
                      client_secret = js_string (cj_client_secret d)\<rparr>
          else None)"

definition loadCredentials :: "world \<Rightarrow> js_error + Credentials" where
  "loadCredentials w =
     (case credentials_from_file w of
        Some c \<Rightarrow> Inr c
      | None \<Rightarrow>
          (case (if is1PasswordAvailable w then loadCredentialsFrom1Password w else None) of
             Some c \<Rightarrow> Inr c
           | None \<Rightarrow>
               Inl (Error ''No credentials found. Run: pnpm tsx scripts/microsoft.ts setup'')))"

text \<open>\<^verbatim>\<open>fs.access(path)\<close> succeeds when the file is there.\<close>

definition fs_access :: "world \<Rightarrow> string \<Rightarrow> bool" where
  "fs_access w p = (token_files w p \<noteq> None)"

definition findTokenPath :: "world \<Rightarrow> string option" where
  "findTokenPath w =
     (let projectPath = getProjectTokenPath w in
      if fs_access w projectPath then Some projectPath
      else let globalPath = getGlobalTokenPath w in
           if fs_access w globalPath then Some globalPath
           else None)"

definition TOKEN_NOT_FOUND :: js_error where
  "TOKEN_NOT_FOUND = Error ''Token not found. Run: pnpm tsx scripts/microsoft.ts auth''"

text \<open>\<^verbatim>\<open>fs.readFile\<close> of a token path followed by \<^verbatim>\<open>JSON.parse\<close>.\<close>

definition read_token_file :: "world \<Rightarrow> string \<Rightarrow> js_error + TokenData" where
  "read_token_file w p =
     (case token_files w p of
        None \<Rightarrow> Inl (Error ''ENOENT: no such file or directory'')
      | Some t \<Rightarrow> Inr t)"

definition loadToken :: "world \<Rightarrow> js_error + TokenData" where
  "loadToken w =
     (case findTokenPath w of
        None \<Rightarrow> Inl TOKEN_NOT_FOUND
      | Some tokenPath \<Rightarrow> read_token_file w tokenPath)"

text \<open>
  \<^verbatim>\<open>saveToken\<close>: \<^verbatim>\<open>fs.mkdir\<close> (recursive) and \<^verbatim>\<open>fs.writeFile\<close> of the whole record;
  the second parameter defaults to false (project scope).
\<close>

definition saveToken :: "TokenData \<Rightarrow> bool \<Rightarrow> world \<Rightarrow> world" where
  "saveToken tokenData global w =
     (let tokenPath = (if global then getGlobalTokenPath w else getProjectTokenPath w)
      in w\<lparr>token_files := (token_files w)(tokenPath := Some tokenData)\<rparr>)"

section \<open>Token refresh\<close>

definition refresh_form :: "Credentials \<Rightarrow> string option \<Rightarrow> form" where
  "refresh_form credentials refreshToken =
     [(''client_id'', client_id credentials),
      (''client_secret'', client_secret credentials),
      (''grant_type'', ''refresh_token''),
      (''refresh_token'', js_string refreshToken),
      (''scope'', SCOPES)]"

text \<open>The object literal \<^verbatim>\<open>tokenData\<close> that \<^verbatim>\<open>refreshAccessToken\<close> builds from the response.\<close>

definition refresh_tokenData :: "provider_data \<Rightarrow> string option \<Rightarrow> int \<Rightarrow> TokenData" where
  "refresh_tokenData data refreshToken now =
     \<lparr>access_token = resp_access_token data,
      refresh_token = js_or (resp_refresh_token data) refreshToken,
      expires_at = now + num_or (resp_expires_in data) 3600 * 1000,
      scope = js_or (resp_scope data) (Some SCOPES),
      token_type = js_or (resp_token_type data) (Some ''Bearer'')\<rparr>"

definition refreshAccessToken ::
  "Credentials \<Rightarrow> string option \<Rightarrow> string \<Rightarrow> world \<Rightarrow> (js_error + TokenData) \<times> world" where
  "refreshAccessToken credentials refreshToken tokenPath w =
     (case fetch_token (refresh_form credentials refreshToken) w of
        (Inl e, w1) \<Rightarrow> (Inl e, w1)
      | (Inr data, w1) \<Rightarrow>
          if truthy (resp_error data)
          then (Inl (Error (''Token refresh failed: '' @
                  js_string (js_or (resp_error_description data) (resp_error data)))), w1)
          else
            (case Date_now w1 of
               (now, w2) \<Rightarrow>
                 let tokenData = refresh_tokenData data refreshToken now;
                     isGlobal = (tokenPath = getGlobalTokenPath w2)
                 in (Inr tokenData, saveToken tokenData isGlobal w2)))"

section \<open>Get valid access token\<close>

definition bufferMs :: int where
  "bufferMs = 5 * 60 * 1000"

definition getValidAccessToken :: "world \<Rightarrow> (js_error + string option) \<times> world" where
  "getValidAccessToken w =
     (case loadCredentials w of
        Inl e \<Rightarrow> (Inl e, w)
      | Inr credentials \<Rightarrow>
          (case findTokenPath w of
             None \<Rightarrow> (Inl TOKEN_NOT_FOUND, w)
           | Some tokenPath \<Rightarrow>
               (case read_token_file w tokenPath of
                  Inl e \<Rightarrow> (Inl e, w)
                | Inr tokenData \<Rightarrow>
                    (case Date_now w of
                       (now, w1) \<Rightarrow>
                         if expires_at tokenData < now + bufferMs
                         then
                           (case refreshAccessToken credentials (refresh_token tokenData)
                                   tokenPath w1 of
                              (Inl e, w2) \<Rightarrow> (Inl e, w2)
                            | (Inr refreshed, w2) \<Rightarrow> (Inr (access_token refreshed), w2))
                         else (Inr (access_token tokenData), w1)))))"

section \<open>PKCE helpers\<close>

text \<open>
  \<^verbatim>\<open>Buffer.toString("base64url")\<close>: RFC 4648 base64 over the alphabet
  \<^verbatim>\<open>A-Z a-z 0-9 - _\<close>, three bytes to four characters, with no padding of a final
  group of one or two bytes.
\<close>

definition b64url_alphabet :: string where
  "b64url_alphabet = ''ABCDEFGHIJKLMNOPQRSTUVWXYZabcdefghijklmnopqrstuvwxyz0123456789-_''"

text \<open>The character of a 6-bit group.\<close>

definition b64url_char :: "nat \<Rightarrow> char" where
  "b64url_char n = b64url_alphabet ! (n mod 64)"

fun base64url :: "8 word list \<Rightarrow> string" where
  "base64url [] = []"
| "base64url [a] =
     (let n = unat a * 16
      in [b64url_char (n div 64), b64url_char (n mod 64)])"
| "base64url [a, b] =
     (let n = unat a * 1024 + unat b * 4
      in [b64url_char (n div 4096), b64url_char (n div 64 mod 64), b64url_char (n mod 64)])"
| "base64url (a # b # c # r) =
     (let n = unat a * 65536 + unat b * 256 + unat c
      in [b64url_char (n div 262144), b64url_char (n div 4096 mod 64),
          b64url_char (n div 64 mod 64), b64url_char (n mod 64)] @ base64url r)"

text \<open>\<^verbatim>\<open>Buffer.toString("hex")\<close>: two lower-case hexadecimal digits for each byte.\<close>

definition hex_digits :: string where
  "hex_digits = ''0123456789abcdef''"

definition hex_digit :: "nat \<Rightarrow> char" where
  "hex_digit n = hex_digits ! (n mod 16)"

definition hex_encode :: "8 word list \<Rightarrow> string" where
  "hex_encode bs = concat (map (\<lambda>b. [hex_digit (unat b div 16), hex_digit (unat b mod 16)]) bs)"

text \<open>
  The bytes \<^verbatim>\<open>hash.update(string)\<close> feeds to the hash: the UTF-8 encoding of the string.
  A \<open>string\<close> here is already a list of bytes.
\<close>

definition utf8_bytes :: "string \<Rightarrow> 8 word list" where
  "utf8_bytes s = map of_char s"

subsection \<open>SHA-256 (FIPS 180-4), as \<^verbatim>\<open>crypto.createHash("sha256")\<close> computes it\<close>

definition rotr :: "nat \<Rightarrow> 32 word \<Rightarrow> 32 word" where
  "rotr n x = drop_bit n x OR push_bit (32 - n) x"

definition Ch :: "32 word \<Rightarrow> 32 word \<Rightarrow> 32 word \<Rightarrow> 32 word" where
  "Ch x y z = (x AND y) XOR (NOT x AND z)"

definition Maj :: "32 word \<Rightarrow> 32 word \<Rightarrow> 32 word \<Rightarrow> 32 word" where
  "Maj x y z = (x AND y) XOR (x AND z) XOR (y AND z)"

definition Sigma0 :: "32 word \<Rightarrow> 32 word" where
  "Sigma0 x = rotr 2 x XOR rotr 13 x XOR rotr 22 x"

definition Sigma1 :: "32 word \<Rightarrow> 32 word" where
  "Sigma1 x = rotr 6 x XOR rotr 11 x XOR rotr 25 x"

definition sigma0 :: "32 word \<Rightarrow> 32 word" where
  "sigma0 x = rotr 7 x XOR rotr 18 x XOR drop_bit 3 x"

definition sigma1 :: "32 word \<Rightarrow> 32 word" where
  "sigma1 x = rotr 17 x XOR rotr 19 x XOR drop_bit 10 x"

text \<open>
  The round constants: the first 32 bits of the fractional parts of the cube roots of the
  first 64 primes (written in decimal).
\<close>

definition K256 :: "32 word list" where
  "K256 =
     [1116352408, 1899447441, 3049323471, 3921009573, 961987163,
      1508970993, 2453635748, 2870763221, 3624381080, 310598401,
      607225278, 1426881987, 1925078388, 2162078206, 2614888103,
      3248222580, 3835390401, 4022224774, 264347078, 604807628,
      770255983, 1249150122, 1555081692, 1996064986, 2554220882,
      2821834349, 2952996808, 3210313671, 3336571891, 3584528711,
      113926993, 338241895, 666307205, 773529912, 1294757372,
      1396182291, 1695183700, 1986661051, 2177026350, 2456956037,
      2730485921, 2820302411, 3259730800, 3345764771, 3516065817,
      3600352804, 4094571909, 275423344, 430227734, 506948616,
      659060556, 883997877, 958139571, 1322822218, 1537002063,
      1747873779, 1955562222, 2024104815, 2227730452, 2361852424,
      2428436474, 2756734187, 3204031479, 3329325298]"

type_synonym sha_state =
  "32 word \<times> 32 word \<times> 32 word \<times> 32 word \<times> 32 word \<times> 32 word \<times> 32 word \<times> 32 word"

text \<open>
  The initial hash value: the first 32 bits of the fractional parts of the square roots
  of the first 8 primes (written in decimal).
\<close>

definition H256 :: sha_state where
  "H256 = (1779033703, 3144134277, 1013904242, 2773480762,
           1359893119, 2600822924, 528734635, 1541459225)"

text \<open>Padding: the byte 0x80, zero bytes up to 56 modulo 64, the bit length in 8 bytes.\<close>

definition length_bytes :: "64 word \<Rightarrow> 8 word list" where
  "length_bytes x = map (\<lambda>i. ucast (drop_bit (8 * (7 - i)) x)) [0 ..< 8]"

definition sha256_pad :: "8 word list \<Rightarrow> 8 word list" where
  "sha256_pad m =
     (let l = length m
      in m @ [0x80] @ replicate ((64 - (l + 9) mod 64) mod 64) 0
           @ length_bytes (of_nat (8 * l)))"

fun be_words :: "8 word list \<Rightarrow> 32 word list" where
  "be_words (a # b # c # d # r) =
     (push_bit 24 (ucast a) OR push_bit 16 (ucast b) OR push_bit 8 (ucast c) OR ucast d)
       # be_words r"
| "be_words r = []"

fun chunks :: "nat \<Rightarrow> 'a list \<Rightarrow> 'a list list" where
  "chunks n xs = (if n = 0 \<or> xs = [] then [] else take n xs # chunks n (drop n xs))"

text \<open>The message schedule: 16 words of the block, extended to 64.\<close>

fun expand :: "nat \<Rightarrow> 32 word list \<Rightarrow> 32 word list" where
  "expand 0 ws = ws"
| "expand (Suc n) ws =
     (let t = length ws
      in expand n (ws @ [sigma1 (ws ! (t - 2)) + ws ! (t - 7)
                          + sigma0 (ws ! (t - 15)) + ws ! (t - 16)]))"

fun sha_round :: "sha_state \<Rightarrow> 32 word \<times> 32 word \<Rightarrow> sha_state" where
  "sha_round (a, b, c, d, e, f, g, h) (k, w) =
     (let T1 = h + Sigma1 e + Ch e f g + k + w;
          T2 = Sigma0 a + Maj a b c
      in (T1 + T2, a, b, c, d + T1, e, f, g))"

fun add_state :: "sha_state \<Rightarrow> sha_state \<Rightarrow> sha_state" where
  "add_state (a, b, c, d, e, f, g, h) (a', b', c', d', e', f', g', h') =
     (a + a', b + b', c + c', d + d', e + e', f + f', g + g', h + h')"

definition compress :: "sha_state \<Rightarrow> 8 word list \<Rightarrow> sha_state" where
  "compress H block = add_state H (foldl sha_round H (zip K256 (expand 48 (be_words block))))"

definition word_bytes :: "32 word \<Rightarrow> 8 word list" where
  "word_bytes x = [ucast (drop_bit 24 x), ucast (drop_bit 16 x), ucast (drop_bit 8 x), ucast x]"

fun state_bytes :: "sha_state \<Rightarrow> 8 word list" where
  "state_bytes (a, b, c, d, e, f, g, h) =
     word_bytes a @ word_bytes b @ word_bytes c @ word_bytes d
       @ word_bytes e @ word_bytes f @ word_bytes g @ word_bytes h"

definition sha256 :: "8 word list \<Rightarrow> 8 word list" where
  "sha256 m = state_bytes (foldl compress H256 (chunks 64 (sha256_pad m)))"

subsection \<open>The three helpers\<close>

definition generateCodeVerifier :: "world \<Rightarrow> string \<times> world" where
  "generateCodeVerifier w = (case randomBytes 32 w of (bytes, w1) \<Rightarrow> (base64url bytes, w1))"

definition generateCodeChallenge :: "string \<Rightarrow> string" where
  "generateCodeChallenge verifier = base64url (sha256 (utf8_bytes verifier))"

definition generateState :: "world \<Rightarrow> string \<times> world" where
  "generateState w = (case randomBytes 16 w of (bytes, w1) \<Rightarrow> (hex_encode bytes, w1))"

text \<open>
  The PKCE material of one authorization attempt, as the three consecutive lines of
  \<^verbatim>\<open>performAuth\<close> produce it (\<^verbatim>\<open>codeVerifier\<close>, \<^verbatim>\<open>codeChallenge\<close>, \<^verbatim>\<open>state\<close>).
\<close>

record PkceParameters =
  verifier :: string
  challenge :: string
  state :: string

definition generatePkce :: "world \<Rightarrow> PkceParameters \<times> world" where
  "generatePkce w =
     (case generateCodeVerifier w of
        (codeVerifier, w1) \<Rightarrow>
          let codeChallenge = generateCodeChallenge codeVerifier
          in (case generateState w1 of
                (st, w2) \<Rightarrow>
                  (\<lparr>verifier = codeVerifier, challenge = codeChallenge, state = st\<rparr>, w2)))"

section \<open>Gitignore management\<close>

definition gitignore_pattern :: string where
  "gitignore_pattern = ''.claude/*.local.*''"

text \<open>\<^verbatim>\<open>content.includes(pattern)\<close>.\<close>

fun includes_str :: "string \<Rightarrow> string \<Rightarrow> bool" where
  "includes_str [] p = (p = [])"
| "includes_str (c # cs) p = (take (length p) (c # cs) = p \<or> includes_str cs p)"

text \<open>
  \<^verbatim>\<open>ensureGitignore\<close>; \<open>gitignore w = None\<close> is the ENOENT of the read. \<open>CHR 0x0A\<close> is the
  line feed.
\<close>

definition ensureGitignore :: "world \<Rightarrow> world" where
  "ensureGitignore w =
     (case gitignore w of
        Some content \<Rightarrow>
          if \<not> includes_str content gitignore_pattern
          then w\<lparr>gitignore := Some (content @ [CHR 0x0A] @ ''# Microsoft skill tokens''
                    @ [CHR 0x0A] @ gitignore_pattern @ [CHR 0x0A])\<rparr>
          else w
      | None \<Rightarrow>
          w\<lparr>gitignore := Some (''# Microsoft skill tokens'' @ [CHR 0x0A]
                 @ gitignore_pattern @ [CHR 0x0A])\<rparr>)"

section \<open>OAuth flow\<close>

subsection \<open>The callback listener\<close>

text \<open>
  An inbound request is its URL: the path and the query parameters in order.
  \<^verbatim>\<open>url.searchParams.get(name)\<close> gives the first value of the name, or null.
\<close>

record http_request =
  req_path :: string
  req_query :: "(string \<times> string) list"

definition searchParams_get :: "http_request \<Rightarrow> string \<Rightarrow> string option" where
  "searchParams_get req name = map_of (req_query req) name"

text \<open>
  The promise that wraps the wait, and what the listener holds while it waits: whether
  the server still listens, the timer that \<^verbatim>\<open>setTimeout(..., 300000)\<close> armed (\<open>None\<close>
  once it has fired; the code never calls \<^verbatim>\<open>clearTimeout\<close>), the promise, and the
  responses written so far (status and body).
\<close>

datatype promise = Pending | Resolved string | Rejected js_error

record listener =
  listening :: bool
  timer :: "int option"
  settled :: promise
  responses :: "(nat \<times> string) list"

text \<open>\<^verbatim>\<open>resolve\<close> and \<^verbatim>\<open>reject\<close> settle a pending promise and are ignored afterwards.\<close>

definition resolve :: "string \<Rightarrow> listener \<Rightarrow> listener" where
  "resolve v l = (if settled l = Pending then l\<lparr>settled := Resolved v\<rparr> else l)"

definition reject :: "js_error \<Rightarrow> listener \<Rightarrow> listener" where
  "reject e l = (if settled l = Pending then l\<lparr>settled := Rejected e\<rparr> else l)"

definition respond :: "nat \<Rightarrow> string \<Rightarrow> listener \<Rightarrow> listener" where
  "respond status body l = l\<lparr>responses := responses l @ [(status, body)]\<rparr>"

definition server_close :: "listener \<Rightarrow> listener" where
  "server_close l = l\<lparr>listening := False\<rparr>"

definition success_page :: string where
  "success_page = ''<h1>Success!</h1><p>You can close this window.</p>''"

text \<open>The request handler passed to \<^verbatim>\<open>http.createServer\<close>; \<open>st\<close> is the generated state.\<close>

definition handler :: "string \<Rightarrow> http_request \<Rightarrow> listener \<Rightarrow> listener" where
  "handler st req l =
     (let returnedCode = searchParams_get req ''code'';
          returnedState = searchParams_get req ''state'';
          error = searchParams_get req ''error''
      in if truthy error
         then reject (Error (js_string error))
                (server_close (respond 400 (''Error: '' @ js_string error) l))
         else if returnedState \<noteq> Some st
         then reject (Error ''State mismatch'')
                (server_close (respond 400 ''Error: State mismatch'' l))
         else if truthy returnedCode
         then resolve (js_string returnedCode)
                (server_close (respond 200 success_page l))
         else respond 404 [] l)"

text \<open>The callback of \<^verbatim>\<open>setTimeout\<close>, run when the armed timer fires.\<close>

definition timeout_callback :: "listener \<Rightarrow> listener" where
  "timeout_callback l = reject (Error ''Timeout'') (server_close l)"

text \<open>
  What can happen while the promise is awaited: a request reaches the server (only while
  it listens), or the timer fires (only while it is armed, and once).
\<close>

datatype event = Request http_request | TimerFired

definition deliver :: "string \<Rightarrow> listener \<Rightarrow> event \<Rightarrow> listener" where
  "deliver st l ev =
     (case ev of
        Request req \<Rightarrow> if listening l then handler st req l else l
      | TimerFired \<Rightarrow>
          (case timer l of
             None \<Rightarrow> l
           | Some delay \<Rightarrow> timeout_callback (l\<lparr>timer := None\<rparr>)))"

text \<open>
  The executor of the promise: the server is created and listens (the bind is taken to
  succeed), and the timer is armed with 300000 ms.
\<close>

definition start_listener :: listener where
  "start_listener = \<lparr>listening = True, timer = Some 300000, settled = Pending, responses = []\<rparr>"

definition run_listener :: "string \<Rightarrow> event list \<Rightarrow> listener" where
  "run_listener st events = foldl (deliver st) start_listener events"

text \<open>
  What holds of the listener after any events: while the wait is pending the server
  listens and the timer is armed with 300000 ms; once it is settled the server is closed.
\<close>

definition wait_invariant :: "listener \<Rightarrow> bool" where
  "wait_invariant l =
     (if settled l = Pending then listening l \<and> timer l = Some 300000 else \<not> listening l)"

subsection \<open>performAuth\<close>

text \<open>
  How an asynchronous call ends: it returns, it throws, the process exits inside it
  (\<^verbatim>\<open>process.exit(code)\<close>), or it is still waiting after the events given.
\<close>

datatype completion = Returned | Thrown js_error | Exited int | Waiting

definition authUrl_params :: "Credentials \<Rightarrow> PkceParameters \<Rightarrow> form" where
  "authUrl_params credentials pkce =
     [(''client_id'', client_id credentials),
      (''response_type'', ''code''),
      (''redirect_uri'', CALLBACK_URL),
      (''response_mode'', ''query''),
      (''scope'', SCOPES),
      (''state'', state pkce),
      (''code_challenge'', challenge pkce),
      (''code_challenge_method'', ''S256'')]"

definition exchange_form :: "Credentials \<Rightarrow> string \<Rightarrow> string \<Rightarrow> form" where
  "exchange_form credentials code codeVerifier =
     [(''client_id'', client_id credentials),
      (''client_secret'', client_secret credentials),
      (''code'', code),
      (''redirect_uri'', CALLBACK_URL),
      (''grant_type'', ''authorization_code''),
      (''code_verifier'', codeVerifier)]"

text \<open>The object literal \<^verbatim>\<open>tokenData\<close> that \<^verbatim>\<open>performAuth\<close> builds from the response.\<close>

definition exchange_tokenData :: "provider_data \<Rightarrow> int \<Rightarrow> TokenData" where
  "exchange_tokenData data now =
     \<lparr>access_token = resp_access_token data,
      refresh_token = resp_refresh_token data,
      expires_at = now + num_or (resp_expires_in data) 3600 * 1000,
      scope = resp_scope data,
      token_type = resp_token_type data\<rparr>"

text \<open>
  The token exchange and the save that follow the wait in \<^verbatim>\<open>performAuth\<close>, ending in
  \<^verbatim>\<open>process.exit(0)\<close>.
\<close>

definition exchange_and_save ::
  "Credentials \<Rightarrow> bool \<Rightarrow> string \<Rightarrow> string \<Rightarrow> world \<Rightarrow> completion \<times> world" where
  "exchange_and_save credentials global code codeVerifier w =
     (case fetch_token (exchange_form credentials code codeVerifier) w of
        (Inl e, w1) \<Rightarrow> (Thrown e, w1)
      | (Inr data, w1) \<Rightarrow>
          if truthy (resp_error data)
          then (Thrown (Error (''Token exchange failed: '' @
                  js_string (js_or (resp_error_description data) (resp_error data)))), w1)
          else
            (case Date_now w1 of
               (now, w2) \<Rightarrow>
                 let tokenData = exchange_tokenData data now
                 in (Exited 0, saveToken tokenData global w2)))"

text \<open>
  \<^verbatim>\<open>performAuth(global, browser)\<close>, with the events that reach the listener while the
  promise is awaited. Messages on standard error and the spawn of the browser
  (\<^verbatim>\<open>openBrowser\<close>, whose failure is caught) change nothing the model holds.
\<close>

definition performAuth :: "bool \<Rightarrow> string option \<Rightarrow> event list \<Rightarrow> world \<Rightarrow> completion \<times> world" where
  "performAuth global browser events w =
     (case loadCredentials w of
        Inl e \<Rightarrow> (Thrown e, w)
      | Inr credentials \<Rightarrow>
          let w1 = (if \<not> global then ensureGitignore w else w)
          in (case generatePkce w1 of
                (pkce, w2) \<Rightarrow>
                  (case settled (run_listener (state pkce) events) of
                     Pending \<Rightarrow> (Waiting, w2)
                   | Rejected e \<Rightarrow> (Thrown e, w2)
                   | Resolved code \<Rightarrow>
                       exchange_and_save credentials global code (verifier pkce) w2)))"

section \<open>The auth command of the CLI\<close>

definition output_json :: "output_value \<Rightarrow> world \<Rightarrow> world" where
  "output_json data w = w\<lparr>stdout := stdout w @ [data]\<rparr>"

text \<open>\<^verbatim>\<open>args[args.indexOf(name) + 1]\<close> when \<^verbatim>\<open>indexOf\<close> is not -1, else undefined.\<close>

fun arg_after :: "string list \<Rightarrow> string \<Rightarrow> string option" where
  "arg_after [] name = None"
| "arg_after (a # r) name =
     (if a = name then (case r of [] \<Rightarrow> None | b # _ \<Rightarrow> Some b) else arg_after r name)"

text \<open>
  The \<^verbatim>\<open>case "auth"\<close> of \<^verbatim>\<open>main\<close>, inside its \<^verbatim>\<open>try\<close>: a throw of \<^verbatim>\<open>performAuth\<close> reaches
  \<^verbatim>\<open>fail\<close>, which exits with code 1; the JSON output is sequenced after the call returns.
\<close>

definition main_auth :: "string list \<Rightarrow> event list \<Rightarrow> world \<Rightarrow> completion \<times> world" where
  "main_auth args events w =
     (let globalFlag = (''--global'' \<in> set args);
          browser = arg_after args ''--browser''
      in case performAuth globalFlag browser events w of
           (Returned, w1) \<Rightarrow>
             let tokenPath = (if globalFlag then getGlobalTokenPath w1
                              else getProjectTokenPath w1)
             in (Returned, output_json (AuthOutput True tokenPath) w1)
         | (Thrown e, w1) \<Rightarrow> (Exited 1, w1)
         | (Exited n, w1) \<Rightarrow> (Exited n, w1)
         | (Waiting, w1) \<Rightarrow> (Waiting, w1))"

section \<open>Example worlds\<close>

text \<open>
  Concrete worlds on which the theorems below are run: a project directory \<^verbatim>\<open>/work\<close>,
  a home directory \<^verbatim>\<open>/home/u\<close>, credentials in the credentials file, a clock that reads
  1000000 ms at first, and a token endpoint that cannot be reached.
\<close>

definition demo_creds :: creds_json where
  "demo_creds = \<lparr>cj_client_id = Some ''app-id'', cj_client_secret = Some ''app-secret''\<rparr>"

definition demo_credentials :: Credentials where
  "demo_credentials = \<lparr>client_id = ''app-id'', client_secret = ''app-secret''\<rparr>"

definition demo_token :: "int \<Rightarrow> string \<Rightarrow> TokenData" where
  "demo_token exp name =
     \<lparr>access_token = Some (''access-'' @ name), refresh_token = Some (''refresh-'' @ name),
      expires_at = exp, scope = Some SCOPES, token_type = Some ''Bearer''\<rparr>"

definition demo_world :: world where
  "demo_world =
     \<lparr>cwd = ''/work'', homedir = ''/home/u'', xdg_config_home = None,
      token_files = (\<lambda>p. None), creds_file = Some demo_creds, gitignore = None,
      op_available = False, op_read = (\<lambda>r. None),
      clock = (\<lambda>n. 1000000 + int n), clock_reads = 0,
      rng = (\<lambda>n. of_nat n), rng_pos = 0,
      provider = (\<lambda>f. Inl (Error ''fetch failed'')), requests = [], stdout = []\<rparr>"

definition demo_project_path :: string where
  "demo_project_path = ''/work/.claude/microsoft-skill.local.json''"

definition demo_global_path :: string where
  "demo_global_path = ''/home/u/.config/microsoft-skill/tokens.json''"

definition project_only :: "TokenData \<Rightarrow> string \<Rightarrow> TokenData option" where
  "project_only t = (\<lambda>p. if p = demo_project_path then Some t else None)"

definition global_only :: "TokenData \<Rightarrow> string \<Rightarrow> TokenData option" where
  "global_only t = (\<lambda>p. if p = demo_global_path then Some t else None)"

definition project_and_global :: "TokenData \<Rightarrow> TokenData \<Rightarrow> string \<Rightarrow> TokenData option" where
  "project_and_global t g =
     (\<lambda>p. if p = demo_project_path then Some t else if p = demo_global_path then Some g else None)"

text \<open>A provider response that grants a token and carries only the access token.\<close>

definition demo_response :: provider_data where
  "demo_response =
     \<lparr>resp_error = None, resp_error_description = None,
      resp_access_token = Some ''access-new'', resp_refresh_token = None,
      resp_expires_in = None, resp_scope = None, resp_token_type = None\<rparr>"


definition fresh_world :: world where
  "fresh_world = demo_world\<lparr>token_files := project_only (demo_token (1000000 + 10 * 60 * 1000) ''old''),
      provider := (\<lambda>f. Inr demo_response)\<rparr>"

text \<open>
  A world with a fresh project record and no credentials anywhere; provider responses
  with an empty refresh token, with a new refresh token and with a zero lifetime; and the
  demo world with a token endpoint that answers a given response.
\<close>

definition nocreds_world :: world where
  "nocreds_world = demo_world\<lparr>token_files := project_only (demo_token (1000000 + 10 * 60 * 1000) ''old''),
      creds_file := None\<rparr>"

definition empty_rotation_response :: provider_data where
  "empty_rotation_response = demo_response\<lparr>resp_refresh_token := Some []\<rparr>"

definition rotating_response :: provider_data where
  "rotating_response = demo_response\<lparr>resp_refresh_token := Some ''refresh-new''\<rparr>"

definition zero_expiry_response :: provider_data where
  "zero_expiry_response = demo_response\<lparr>resp_expires_in := Some 0\<rparr>"

definition answering_world :: "provider_data \<Rightarrow> world" where
  "answering_world d = demo_world\<lparr>provider := (\<lambda>f. Inr d)\<rparr>"

text \<open>A response with a lifetime of two hours and a token type of its own.\<close>

definition hour_response :: provider_data where
  "hour_response = demo_response\<lparr>resp_expires_in := Some 7200, resp_token_type := Some ''bearer''\<rparr>"

text \<open>Requests: a callback with given query parameters, and a request for another path.\<close>

definition callback_request :: "(string \<times> string) list \<Rightarrow> http_request" where
  "callback_request q = \<lparr>req_path = ''/callback'', req_query = q\<rparr>"

definition favicon_request :: http_request where
  "favicon_request = \<lparr>req_path = ''/favicon.ico'', req_query = []\<rparr>"

text \<open>
  What the demo world's random stream (the bytes 0, 1, 2, ...) gives: the verifier from
  the bytes 0 to 31 and the state from the bytes 32 to 47.
\<close>

definition demo_state :: string where
  "demo_state = ''202122232425262728292a2b2c2d2e2f''"

definition demo_verifier :: string where
  "demo_verifier = ''AAECAwQFBgcICQoLDA0ODxAREhMUFRYXGBkaGxwdHh8''"

section \<open>Paths and the environment\<close>

lemma token_paths_differ: "getProjectTokenPath w \<noteq> getGlobalTokenPath w"
proof
  assume eq: "getProjectTokenPath w = getGlobalTokenPath w"
  have p: "getProjectTokenPath w = (cwd w @ ''/.claude/microsoft-skill'') @ ''.local.json''"
    by (simp add: getProjectTokenPath_def PROJECT_TOKEN_DIR_def PROJECT_TOKEN_FILE_def)
  have g: "getGlobalTokenPath w = (getGlobalConfigDir w @ ''/'') @ ''tokens.json''"
    by (simp add: getGlobalTokenPath_def GLOBAL_TOKEN_FILE_def)
  from eq have "(cwd w @ ''/.claude/microsoft-skill'') @ ''.local.json''
      = (getGlobalConfigDir w @ ''/'') @ ''tokens.json''"
    by (simp only: p g)
  then have "''.local.json'' = ''tokens.json''"
    by (subst (asm) append_eq_append_conv) simp_all
  then show False by simp
qed

text \<open>The paths depend on the environment only, which no function changes.\<close>

lemma project_path_upd [simp]:
  "getProjectTokenPath (w\<lparr>requests := r\<rparr>) = getProjectTokenPath w"
  "getProjectTokenPath (w\<lparr>clock_reads := n\<rparr>) = getProjectTokenPath w"
  "getProjectTokenPath (w\<lparr>token_files := f\<rparr>) = getProjectTokenPath w"
  "getProjectTokenPath (w\<lparr>gitignore := g\<rparr>) = getProjectTokenPath w"
  "getProjectTokenPath (w\<lparr>rng_pos := k\<rparr>) = getProjectTokenPath w"
  "getProjectTokenPath (w\<lparr>provider := pr\<rparr>) = getProjectTokenPath w"
  "getProjectTokenPath (w\<lparr>creds_file := cf\<rparr>) = getProjectTokenPath w"
  "getProjectTokenPath (w\<lparr>stdout := out\<rparr>) = getProjectTokenPath w"
  by (simp_all add: getProjectTokenPath_def)

lemma global_path_upd [simp]:
  "getGlobalTokenPath (w\<lparr>requests := r\<rparr>) = getGlobalTokenPath w"
  "getGlobalTokenPath (w\<lparr>clock_reads := n\<rparr>) = getGlobalTokenPath w"
  "getGlobalTokenPath (w\<lparr>token_files := f\<rparr>) = getGlobalTokenPath w"
  "getGlobalTokenPath (w\<lparr>gitignore := g\<rparr>) = getGlobalTokenPath w"
  "getGlobalTokenPath (w\<lparr>rng_pos := k\<rparr>) = getGlobalTokenPath w"
  "getGlobalTokenPath (w\<lparr>provider := pr\<rparr>) = getGlobalTokenPath w"
  "getGlobalTokenPath (w\<lparr>creds_file := cf\<rparr>) = getGlobalTokenPath w"
  "getGlobalTokenPath (w\<lparr>stdout := out\<rparr>) = getGlobalTokenPath w"
  by (simp_all add: getGlobalTokenPath_def getGlobalConfigDir_def)

lemma demo_paths [simp]:
  "getProjectTokenPath demo_world = demo_project_path"
  "getGlobalTokenPath demo_world = demo_global_path"
  by (simp_all add: getProjectTokenPath_def getGlobalTokenPath_def getGlobalConfigDir_def
      PROJECT_TOKEN_DIR_def PROJECT_TOKEN_FILE_def GLOBAL_TOKEN_FILE_def demo_world_def
      truthy_def demo_project_path_def demo_global_path_def)

lemma demo_paths_differ [simp]:
  "demo_project_path \<noteq> demo_global_path" "demo_global_path \<noteq> demo_project_path"
  by (simp_all add: demo_project_path_def demo_global_path_def)

lemma demo_loadCredentials [simp]:
  "loadCredentials (demo_world\<lparr>token_files := f\<rparr>) = Inr demo_credentials"
  "loadCredentials (demo_world\<lparr>token_files := f, provider := pr\<rparr>) = Inr demo_credentials"
  "loadCredentials demo_world = Inr demo_credentials"
  by (simp_all add: loadCredentials_def credentials_from_file_def demo_world_def demo_creds_def
      demo_credentials_def truthy_def js_string_def)

section \<open>Scope resolution\<close>

lemma findTokenPath_cases:
  "findTokenPath w =
     (if token_files w (getProjectTokenPath w) \<noteq> None then Some (getProjectTokenPath w)
      else if token_files w (getGlobalTokenPath w) \<noteq> None then Some (getGlobalTokenPath w)
      else None)"
  by (simp add: findTokenPath_def fs_access_def Let_def)


text \<open>
  C9. A read with no explicit scope (\<^verbatim>\<open>loadToken\<close>, through \<^verbatim>\<open>findTokenPath\<close>) tries the
  project location first and falls back to the global one. When a project record
  exists it is the one returned, whole, whether or not a global record exists; when only
  a global record exists it is returned; when neither exists the read reports that the
  token was not found.
\<close>

theorem loadToken_project_then_global:
  "(\<forall>t. token_files w (getProjectTokenPath w) = Some t \<longrightarrow>
       findTokenPath w = Some (getProjectTokenPath w) \<and> loadToken w = Inr t)
   \<and> (\<forall>g. token_files w (getProjectTokenPath w) = None
          \<and> token_files w (getGlobalTokenPath w) = Some g \<longrightarrow>
       findTokenPath w = Some (getGlobalTokenPath w) \<and> loadToken w = Inr g)
   \<and> (token_files w (getProjectTokenPath w) = None
          \<and> token_files w (getGlobalTokenPath w) = None \<longrightarrow>
       findTokenPath w = None \<and> loadToken w = Inl TOKEN_NOT_FOUND)"
  by (simp add: findTokenPath_cases loadToken_def read_token_file_def)

theorem loadToken_project_then_global_witness:
  "loadToken (demo_world\<lparr>token_files :=
       project_and_global (demo_token 5000000 ''project'') (demo_token 5000000 ''global'')\<rparr>)
     = Inr (demo_token 5000000 ''project'')
   \<and> loadToken (demo_world\<lparr>token_files := global_only (demo_token 5000000 ''global'')\<rparr>)
     = Inr (demo_token 5000000 ''global'')
   \<and> loadToken demo_world = Inl TOKEN_NOT_FOUND"
proof -
  let ?both = "demo_world\<lparr>token_files :=
       project_and_global (demo_token 5000000 ''project'') (demo_token 5000000 ''global'')\<rparr>"
  let ?glob = "demo_world\<lparr>token_files := global_only (demo_token 5000000 ''global'')\<rparr>"
  have b: "token_files ?both (getProjectTokenPath ?both) = Some (demo_token 5000000 ''project'')"
    by (simp add: project_and_global_def)
  have g: "token_files ?glob (getProjectTokenPath ?glob) = None"
    "token_files ?glob (getGlobalTokenPath ?glob) = Some (demo_token 5000000 ''global'')"
    by (simp_all add: global_only_def)
  have n: "token_files demo_world (getProjectTokenPath demo_world) = None"
    "token_files demo_world (getGlobalTokenPath demo_world) = None"
    by (simp_all add: demo_world_def)
  from loadToken_project_then_global [of ?both] b
    loadToken_project_then_global [of ?glob] g
    loadToken_project_then_global [of demo_world] n
  show ?thesis by simp
qed

section \<open>Refresh and reuse\<close>

lemma saveToken_at:
  "p = getProjectTokenPath w \<or> p = getGlobalTokenPath w \<Longrightarrow>
   token_files (saveToken td (p = getGlobalTokenPath w) w) = (token_files w)(p := Some td)"
  using token_paths_differ [of w] by (auto simp: saveToken_def Let_def)


lemma refreshAccessToken_success:
  assumes "provider w (refresh_form c prior) = Inr d" "\<not> truthy (resp_error d)"
  shows "refreshAccessToken c prior p w =
     (Inr (refresh_tokenData d prior (clock w (clock_reads w))),
      saveToken (refresh_tokenData d prior (clock w (clock_reads w))) (p = getGlobalTokenPath w)
        (w\<lparr>requests := requests w @ [refresh_form c prior],
           clock_reads := Suc (clock_reads w)\<rparr>))"
  using assms
  by (simp add: refreshAccessToken_def fetch_token_def Date_now_def Let_def)

lemma refreshAccessToken_persisted:
  assumes ok: "provider w (refresh_form c prior) = Inr d" and noerr: "\<not> truthy (resp_error d)"
    and p: "p = getProjectTokenPath w \<or> p = getGlobalTokenPath w"
  shows "fst (refreshAccessToken c prior p w) = Inr (refresh_tokenData d prior (clock w (clock_reads w)))"
    and "token_files (snd (refreshAccessToken c prior p w)) =
      (token_files w)(p := Some (refresh_tokenData d prior (clock w (clock_reads w))))"
proof -
  let ?td = "refresh_tokenData d prior (clock w (clock_reads w))"
  let ?w2 = "w\<lparr>requests := requests w @ [refresh_form c prior], clock_reads := Suc (clock_reads w)\<rparr>"
  have r: "refreshAccessToken c prior p w = (Inr ?td, saveToken ?td (p = getGlobalTokenPath w) ?w2)"
    by (rule refreshAccessToken_success [OF ok noerr])
  show "fst (refreshAccessToken c prior p w) = Inr ?td" by (simp add: r)
  have "token_files (saveToken ?td (p = getGlobalTokenPath ?w2) ?w2) = (token_files ?w2)(p := Some ?td)"
    by (rule saveToken_at) (use p in simp)
  then show "token_files (snd (refreshAccessToken c prior p w)) = (token_files w)(p := Some ?td)"
    by (simp add: r)
qed

lemma getValidAccessToken_fresh:
  assumes "loadCredentials w = Inr c" "findTokenPath w = Some p" "token_files w p = Some t"
    and "\<not> expires_at t < clock w (clock_reads w) + bufferMs"
  shows "getValidAccessToken w = (Inr (access_token t), w\<lparr>clock_reads := Suc (clock_reads w)\<rparr>)"
  using assms by (simp add: getValidAccessToken_def read_token_file_def Date_now_def)




lemma fresh_world_facts:
  "loadCredentials fresh_world = Inr demo_credentials"
  "findTokenPath fresh_world = Some demo_project_path"
  "token_files fresh_world demo_project_path = Some (demo_token (1000000 + 10 * 60 * 1000) ''old'')"
  "clock fresh_world (clock_reads fresh_world) = 1000000"
  by (simp_all add: fresh_world_def findTokenPath_cases project_only_def)
     (simp_all add: demo_world_def)


section \<open>Credentials come first\<close>

lemma getValidAccessToken_no_credentials:
  "loadCredentials w = Inl e \<Longrightarrow> getValidAccessToken w = (Inl e, w)"
  by (simp add: getValidAccessToken_def)

lemma nocreds_world_facts:
  "loadCredentials nocreds_world =
     Inl (Error ''No credentials found. Run: pnpm tsx scripts/microsoft.ts setup'')"
  "loadToken nocreds_world = Inr (demo_token (1000000 + 10 * 60 * 1000) ''old'')"
  "clock nocreds_world (clock_reads nocreds_world) = 1000000"
  by (simp_all add: nocreds_world_def loadCredentials_def credentials_from_file_def
      is1PasswordAvailable_def loadToken_def findTokenPath_cases read_token_file_def project_only_def)
     (simp_all add: demo_world_def)

text \<open>
  C4, as stated, fails: \<^verbatim>\<open>getValidAccessToken\<close> calls \<^verbatim>\<open>loadCredentials\<close> on its first
  line, before it looks at the token. In a world with a stored record that expires in 10
  minutes (outside the buffer) and no credentials, the call fails with the credentials
  error instead of returning the stored access token.
\<close>

theorem fresh_token_without_credentials_counterexample:
  "loadToken nocreds_world = Inr (demo_token (1000000 + 10 * 60 * 1000) ''old'')
   \<and> \<not> expires_at (demo_token (1000000 + 10 * 60 * 1000) ''old'')
          < clock nocreds_world (clock_reads nocreds_world) + bufferMs
   \<and> fst (getValidAccessToken nocreds_world) =
        Inl (Error ''No credentials found. Run: pnpm tsx scripts/microsoft.ts setup'')
   \<and> fst (getValidAccessToken nocreds_world) \<noteq> Inr (Some ''access-old'')"
  by (simp add: nocreds_world_facts getValidAccessToken_no_credentials bufferMs_def demo_token_def)

text \<open>
  C4, amended. The credentials are resolved first on every invocation: when none
  resolve, the call fails with the resolver's error and changes nothing, whatever the
  stored token. When they resolve and the stored token is outside the refresh buffer,
  the stored access token is returned, no request is sent to the token endpoint and the
  token files are unchanged (the credentials loaded are not used).
\<close>

theorem getValidAccessToken_credentials_first:
  "(\<forall>e. loadCredentials w = Inl e \<longrightarrow> getValidAccessToken w = (Inl e, w))
   \<and> (\<forall>c p t. loadCredentials w = Inr c \<and> findTokenPath w = Some p \<and> token_files w p = Some t
          \<and> \<not> expires_at t < clock w (clock_reads w) + 5 * 60 * 1000 \<longrightarrow>
        fst (getValidAccessToken w) = Inr (access_token t)
        \<and> requests (snd (getValidAccessToken w)) = requests w
        \<and> token_files (snd (getValidAccessToken w)) = token_files w)"
proof -
  have "fst (getValidAccessToken w) = Inr (access_token t)
        \<and> requests (snd (getValidAccessToken w)) = requests w
        \<and> token_files (snd (getValidAccessToken w)) = token_files w"
    if "loadCredentials w = Inr c" "findTokenPath w = Some p" "token_files w p = Some t"
      "\<not> expires_at t < clock w (clock_reads w) + 5 * 60 * 1000" for c p t
    using getValidAccessToken_fresh [OF that(1,2,3)] that(4) by (simp add: bufferMs_def)
  then show ?thesis
    by (auto simp: getValidAccessToken_no_credentials)
qed

theorem getValidAccessToken_credentials_first_witness:
  "getValidAccessToken nocreds_world =
      (Inl (Error ''No credentials found. Run: pnpm tsx scripts/microsoft.ts setup''), nocreds_world)
   \<and> fst (getValidAccessToken fresh_world) = Inr (Some ''access-old'')
   \<and> requests (snd (getValidAccessToken fresh_world)) = requests fresh_world"
  using getValidAccessToken_credentials_first [of nocreds_world]
    getValidAccessToken_credentials_first [of fresh_world]
  by (simp add: nocreds_world_facts fresh_world_facts demo_token_def)

section \<open>What a refresh writes\<close>

text \<open>
  C8, as stated, fails for a response that includes \<^verbatim>\<open>refresh_token\<close> with the empty
  string as its value: \<^verbatim>\<open>data.refresh_token || refreshToken\<close> takes the empty string for
  absent, so the record written keeps the prior refresh token and not the value of the
  response.
\<close>

theorem empty_refresh_token_counterexample:
  "resp_refresh_token empty_rotation_response = Some []
   \<and> map_option refresh_token
        (token_files (snd (refreshAccessToken demo_credentials (Some ''refresh-old'')
           demo_project_path (answering_world empty_rotation_response))) demo_project_path)
      = Some (Some ''refresh-old'')"
proof -
  let ?w = "answering_world empty_rotation_response"
  have a: "provider ?w (refresh_form demo_credentials (Some ''refresh-old'')) = Inr empty_rotation_response"
    by (simp add: answering_world_def)
  have b: "\<not> truthy (resp_error empty_rotation_response)"
    by (simp add: empty_rotation_response_def demo_response_def truthy_def)
  have c: "demo_project_path = getProjectTokenPath ?w \<or> demo_project_path = getGlobalTokenPath ?w"
    by (simp add: answering_world_def)
  show ?thesis
    by (simp add: refreshAccessToken_persisted(2) [OF a b c] refresh_tokenData_def js_or_def truthy_def)
       (simp add: empty_rotation_response_def)
qed

text \<open>
  C8, amended. For every successful refresh (the token endpoint answers without an
  error field) of a record read from the project or the global path: the record returned
  is the record written at that path; when the response omits \<^verbatim>\<open>refresh_token\<close> or
  gives the empty string, the record keeps the prior refresh token; when the response
  gives a non-empty one, the record holds the new value.
\<close>

theorem refresh_token_retention:
  assumes ok: "provider w (refresh_form c prior) = Inr d"
    and noerr: "\<not> truthy (resp_error d)"
    and path: "p = getProjectTokenPath w \<or> p = getGlobalTokenPath w"
  shows "\<exists>td. fst (refreshAccessToken c prior p w) = Inr td
            \<and> token_files (snd (refreshAccessToken c prior p w)) p = Some td
            \<and> (resp_refresh_token d = None \<or> resp_refresh_token d = Some [] \<longrightarrow>
                 refresh_token td = prior)
            \<and> (\<forall>r. resp_refresh_token d = Some r \<and> r \<noteq> [] \<longrightarrow> refresh_token td = Some r)"
proof -
  let ?td = "refresh_tokenData d prior (clock w (clock_reads w))"
  note r = refreshAccessToken_persisted [OF ok noerr path]
  have "refresh_token ?td = (if truthy (resp_refresh_token d) then resp_refresh_token d else prior)"
    by (simp add: refresh_tokenData_def js_or_def)
  then have "(resp_refresh_token d = None \<or> resp_refresh_token d = Some [] \<longrightarrow> refresh_token ?td = prior)
      \<and> (\<forall>r. resp_refresh_token d = Some r \<and> r \<noteq> [] \<longrightarrow> refresh_token ?td = Some r)"
    by (auto simp: truthy_def)
  with r show ?thesis
    by (intro exI [of _ ?td]) simp
qed

theorem refresh_token_retention_witness:
  "map_option refresh_token
        (token_files (snd (refreshAccessToken demo_credentials (Some ''refresh-old'')
           demo_project_path (answering_world demo_response))) demo_project_path)
      = Some (Some ''refresh-old'')
   \<and> map_option refresh_token
        (token_files (snd (refreshAccessToken demo_credentials (Some ''refresh-old'')
           demo_global_path (answering_world rotating_response))) demo_global_path)
      = Some (Some ''refresh-new'')"
proof -
  let ?w = "answering_world demo_response" and ?v = "answering_world rotating_response"
  have a: "provider ?w (refresh_form demo_credentials (Some ''refresh-old'')) = Inr demo_response"
    "provider ?v (refresh_form demo_credentials (Some ''refresh-old'')) = Inr rotating_response"
    by (simp_all add: answering_world_def)
  have b: "\<not> truthy (resp_error demo_response)" "\<not> truthy (resp_error rotating_response)"
    by (simp_all add: rotating_response_def demo_response_def truthy_def)
  have c: "demo_project_path = getProjectTokenPath ?w \<or> demo_project_path = getGlobalTokenPath ?w"
    "demo_global_path = getProjectTokenPath ?v \<or> demo_global_path = getGlobalTokenPath ?v"
    by (simp_all add: answering_world_def)
  have d: "resp_refresh_token demo_response = None"
    "resp_refresh_token rotating_response = Some ''refresh-new''"
    by (simp_all add: rotating_response_def demo_response_def)
  from refresh_token_retention [OF a(1) b(1) c(1)] refresh_token_retention [OF a(2) b(2) c(2)]
  show ?thesis by (auto simp: d)
qed

section \<open>Expiry and token type of a new record\<close>

lemma saveToken_scope:
  "token_files (saveToken td global w)
     (if global then getGlobalTokenPath w else getProjectTokenPath w) = Some td"
  by (simp add: saveToken_def Let_def)

lemma exchange_and_save_success:
  assumes "provider w (exchange_form c code v) = Inr d" "\<not> truthy (resp_error d)"
  shows "exchange_and_save c global code v w =
     (Exited 0, saveToken (exchange_tokenData d (clock w (clock_reads w))) global
        (w\<lparr>requests := requests w @ [exchange_form c code v],
           clock_reads := Suc (clock_reads w)\<rparr>))"
  using assms by (simp add: exchange_and_save_def fetch_token_def Date_now_def Let_def)

lemma num_or_cases:
  "(a = None \<or> a = Some 0 \<longrightarrow> num_or a d = d) \<and> (\<forall>n. a = Some n \<and> n \<noteq> 0 \<longrightarrow> num_or a d = n)"
  by (auto simp: num_or_def)

lemma js_or_cases:
  "(a = None \<or> a = Some [] \<longrightarrow> js_or a b = b) \<and> (\<forall>s. a = Some s \<and> s \<noteq> [] \<longrightarrow> js_or a b = Some s)"
  by (auto simp: js_or_def truthy_def)

text \<open>
  C7, as stated, fails. A response to the code exchange that gives \<^verbatim>\<open>expires_in: 0\<close> and
  no \<^verbatim>\<open>token_type\<close> is stored with \<open>expires_at = now + 3600000\<close> (the claim: \<open>now + 0\<close>),
  since \<^verbatim>\<open>data.expires_in || 3600\<close> takes 0 for absent; and it is stored with no token
  type at all (the claim: the bearer literal), since \<^verbatim>\<open>performAuth\<close> copies
  \<^verbatim>\<open>data.token_type\<close> as it is.
\<close>

theorem zero_lifetime_and_missing_type_counterexample:
  "resp_expires_in zero_expiry_response = Some 0
   \<and> resp_token_type zero_expiry_response = None
   \<and> map_option expires_at
        (token_files (snd (exchange_and_save demo_credentials False ''the-code'' ''the-verifier''
           (answering_world zero_expiry_response))) demo_project_path)
      = Some (1000000 + 3600 * 1000)
   \<and> map_option token_type
        (token_files (snd (exchange_and_save demo_credentials False ''the-code'' ''the-verifier''
           (answering_world zero_expiry_response))) demo_project_path)
      = Some None"
proof -
  let ?w = "answering_world zero_expiry_response"
  have a: "provider ?w (exchange_form demo_credentials ''the-code'' ''the-verifier'') = Inr zero_expiry_response"
    by (simp add: answering_world_def)
  have b: "\<not> truthy (resp_error zero_expiry_response)"
    by (simp add: zero_expiry_response_def demo_response_def truthy_def)
  have c: "clock ?w (clock_reads ?w) = 1000000"
    by (simp add: answering_world_def demo_world_def)
  have d: "getProjectTokenPath ?w = demo_project_path"
    by (simp add: answering_world_def)
  have e: "resp_expires_in zero_expiry_response = Some 0" "resp_token_type zero_expiry_response = None"
    by (simp_all add: zero_expiry_response_def demo_response_def)
  show ?thesis
    using saveToken_scope [of "exchange_tokenData zero_expiry_response 1000000" False
        "?w\<lparr>requests := requests ?w @ [exchange_form demo_credentials ''the-code'' ''the-verifier''],
           clock_reads := Suc (clock_reads ?w)\<rparr>"]
    by (simp add: exchange_and_save_success [OF a b] c d e exchange_tokenData_def num_or_def)
qed

text \<open>
  C7, amended. For a response without an error field, \<open>now\<close> being the clock reading
  taken when the record is built: on the refresh and on the code exchange alike,
  \<open>expires_at\<close> is \<open>now + expires_in * 1000\<close> when the provider gives a non-zero
  \<open>expires_in\<close>, and \<open>now + 3600 * 1000\<close> when \<open>expires_in\<close> is absent or zero. On the
  refresh, \<open>token_type\<close> is the provider's value when it is present and non-empty, and
  the literal \<^verbatim>\<open>Bearer\<close> otherwise. Nothing is stated about the token type that the code
  exchange stores.
\<close>

theorem token_record_expiry_and_type:
  assumes noerr: "\<not> truthy (resp_error d)"
    and now: "now = clock w (clock_reads w)"
  shows "(provider w (refresh_form c prior) = Inr d \<longrightarrow>
           (\<exists>td. fst (refreshAccessToken c prior p w) = Inr td
              \<and> (resp_expires_in d = None \<or> resp_expires_in d = Some 0 \<longrightarrow>
                   expires_at td = now + 3600 * 1000)
              \<and> (\<forall>n. resp_expires_in d = Some n \<and> n \<noteq> 0 \<longrightarrow> expires_at td = now + n * 1000)
              \<and> (resp_token_type d = None \<or> resp_token_type d = Some [] \<longrightarrow>
                   token_type td = Some ''Bearer'')
              \<and> (\<forall>s. resp_token_type d = Some s \<and> s \<noteq> [] \<longrightarrow> token_type td = Some s)))
    \<and> (provider w (exchange_form c code v) = Inr d \<longrightarrow>
           (\<exists>td. fst (exchange_and_save c global code v w) = Exited 0
              \<and> token_files (snd (exchange_and_save c global code v w))
                   (if global then getGlobalTokenPath w else getProjectTokenPath w) = Some td
              \<and> (resp_expires_in d = None \<or> resp_expires_in d = Some 0 \<longrightarrow>
                   expires_at td = now + 3600 * 1000)
              \<and> (\<forall>n. resp_expires_in d = Some n \<and> n \<noteq> 0 \<longrightarrow> expires_at td = now + n * 1000)))"
proof (intro conjI impI)
  assume ok: "provider w (refresh_form c prior) = Inr d"
  let ?td = "refresh_tokenData d prior now"
  have "fst (refreshAccessToken c prior p w) = Inr ?td"
    by (simp add: refreshAccessToken_success [OF ok noerr] now)
  moreover have "expires_at ?td = now + num_or (resp_expires_in d) 3600 * 1000"
    "token_type ?td = js_or (resp_token_type d) (Some ''Bearer'')"
    by (simp_all add: refresh_tokenData_def)
  ultimately show "\<exists>td. fst (refreshAccessToken c prior p w) = Inr td
              \<and> (resp_expires_in d = None \<or> resp_expires_in d = Some 0 \<longrightarrow>
                   expires_at td = now + 3600 * 1000)
              \<and> (\<forall>n. resp_expires_in d = Some n \<and> n \<noteq> 0 \<longrightarrow> expires_at td = now + n * 1000)
              \<and> (resp_token_type d = None \<or> resp_token_type d = Some [] \<longrightarrow>
                   token_type td = Some ''Bearer'')
              \<and> (\<forall>s. resp_token_type d = Some s \<and> s \<noteq> [] \<longrightarrow> token_type td = Some s)"
    using num_or_cases [of "resp_expires_in d" 3600]
      js_or_cases [of "resp_token_type d" "Some ''Bearer''"]
    by (intro exI [of _ ?td]) simp
next
  assume ok: "provider w (exchange_form c code v) = Inr d"
  let ?td = "exchange_tokenData d now"
  let ?w2 = "w\<lparr>requests := requests w @ [exchange_form c code v], clock_reads := Suc (clock_reads w)\<rparr>"
  have r: "exchange_and_save c global code v w = (Exited 0, saveToken ?td global ?w2)"
    by (simp add: exchange_and_save_success [OF ok noerr] now)
  have "token_files (saveToken ?td global ?w2)
      (if global then getGlobalTokenPath w else getProjectTokenPath w) = Some ?td"
    by (simp add: saveToken_def Let_def)
  moreover have "expires_at ?td = now + num_or (resp_expires_in d) 3600 * 1000"
    by (simp add: exchange_tokenData_def)
  ultimately show "\<exists>td. fst (exchange_and_save c global code v w) = Exited 0
              \<and> token_files (snd (exchange_and_save c global code v w))
                   (if global then getGlobalTokenPath w else getProjectTokenPath w) = Some td
              \<and> (resp_expires_in d = None \<or> resp_expires_in d = Some 0 \<longrightarrow>
                   expires_at td = now + 3600 * 1000)
              \<and> (\<forall>n. resp_expires_in d = Some n \<and> n \<noteq> 0 \<longrightarrow> expires_at td = now + n * 1000)"
    using num_or_cases [of "resp_expires_in d" 3600]
    by (intro exI [of _ ?td]) (simp add: r)
qed

theorem token_record_expiry_and_type_witness:
  "map_option expires_at (case fst (refreshAccessToken demo_credentials (Some ''refresh-old'')
        demo_project_path (answering_world hour_response)) of Inl e \<Rightarrow> None | Inr td \<Rightarrow> Some td)
     = Some (1000000 + 7200 * 1000)
   \<and> map_option token_type (case fst (refreshAccessToken demo_credentials (Some ''refresh-old'')
        demo_project_path (answering_world demo_response)) of Inl e \<Rightarrow> None | Inr td \<Rightarrow> Some td)
     = Some (Some ''Bearer'')
   \<and> map_option expires_at
        (token_files (snd (exchange_and_save demo_credentials True ''the-code'' ''the-verifier''
           (answering_world demo_response))) demo_global_path)
      = Some (1000000 + 3600 * 1000)"
proof -
  let ?h = "answering_world hour_response" and ?d = "answering_world demo_response"
  have ne: "\<not> truthy (resp_error hour_response)" "\<not> truthy (resp_error demo_response)"
    by (simp_all add: hour_response_def demo_response_def truthy_def)
  have ck: "1000000 = clock ?h (clock_reads ?h)" "1000000 = clock ?d (clock_reads ?d)"
    by (simp_all add: answering_world_def demo_world_def)
  have pr: "provider ?h (refresh_form demo_credentials (Some ''refresh-old'')) = Inr hour_response"
    "provider ?d (refresh_form demo_credentials (Some ''refresh-old'')) = Inr demo_response"
    "provider ?d (exchange_form demo_credentials ''the-code'' ''the-verifier'') = Inr demo_response"
    by (simp_all add: answering_world_def)
  have f: "resp_expires_in hour_response = Some 7200" "resp_token_type demo_response = None"
    "resp_expires_in demo_response = None" "getGlobalTokenPath ?d = demo_global_path"
    by (simp_all add: hour_response_def demo_response_def answering_world_def)
  note h = token_record_expiry_and_type [OF ne(1) ck(1), of demo_credentials
      "Some ''refresh-old''" demo_project_path "''the-code''" "''the-verifier''" True]
  note d = token_record_expiry_and_type [OF ne(2) ck(2), of demo_credentials
      "Some ''refresh-old''" demo_project_path "''the-code''" "''the-verifier''" True]
  from h pr(1) f(1) obtain td1 where td1:
    "fst (refreshAccessToken demo_credentials (Some ''refresh-old'') demo_project_path ?h) = Inr td1"
    "expires_at td1 = 1000000 + 7200 * 1000"
    by auto
  from d pr(2) f(2) obtain td2 where td2:
    "fst (refreshAccessToken demo_credentials (Some ''refresh-old'') demo_project_path ?d) = Inr td2"
    "token_type td2 = Some ''Bearer''"
    by auto
  from d pr(3) f(3) obtain td3 where td3:
    "token_files (snd (exchange_and_save demo_credentials True ''the-code'' ''the-verifier'' ?d))
       (getGlobalTokenPath ?d) = Some td3"
    "expires_at td3 = 1000000 + 3600 * 1000"
    by auto
  show ?thesis
    using td1 td2 td3 by (simp add: f(4))
qed

section \<open>The callback handler\<close>

lemma handler_error:
  "searchParams_get req ''error'' = Some m \<Longrightarrow> m \<noteq> [] \<Longrightarrow>
   handler st req l = reject (Error m) (server_close (respond 400 (''Error: '' @ m) l))"
  by (simp add: handler_def Let_def truthy_def js_string_def)

lemma handler_mismatch:
  "\<not> truthy (searchParams_get req ''error'') \<Longrightarrow> searchParams_get req ''state'' \<noteq> Some st \<Longrightarrow>
   handler st req l =
     reject (Error ''State mismatch'') (server_close (respond 400 ''Error: State mismatch'' l))"
  by (simp add: handler_def Let_def)

lemma handler_code:
  "\<not> truthy (searchParams_get req ''error'') \<Longrightarrow> searchParams_get req ''state'' = Some st \<Longrightarrow>
   searchParams_get req ''code'' = Some k \<Longrightarrow> k \<noteq> [] \<Longrightarrow>
   handler st req l = resolve k (server_close (respond 200 success_page l))"
  by (simp add: handler_def Let_def truthy_def js_string_def success_page_def)


lemma falsy_iff: "\<not> truthy v \<longleftrightarrow> v = None \<or> v = Some []"
  by (cases v) (simp_all add: truthy_def)

lemma settle_simps [simp]:
  "settled (reject e l) = (if settled l = Pending then Rejected e else settled l)"
  "settled (resolve v l) = (if settled l = Pending then Resolved v else settled l)"
  "settled (server_close l) = settled l"
  "settled (respond n b l) = settled l"
  "listening (reject e l) = listening l"
  "listening (resolve v l) = listening l"
  "listening (server_close l) = False"
  "listening (respond n b l) = listening l"
  "timer (reject e l) = timer l"
  "timer (resolve v l) = timer l"
  "timer (server_close l) = timer l"
  "timer (respond n b l) = timer l"
  "responses (reject e l) = responses l"
  "responses (resolve v l) = responses l"
  "responses (server_close l) = responses l"
  "responses (respond n b l) = responses l @ [(n, b)]"
  by (simp_all add: reject_def resolve_def server_close_def respond_def)

text \<open>
  C3, as stated, fails for a callback whose \<^verbatim>\<open>error\<close> parameter is present with an empty
  value (\<^verbatim>\<open>?error=&code=...&state=...\<close>): \<^verbatim>\<open>if (error)\<close> takes the empty string for
  absent, so the handler goes on to the state and the code and answers 200.
\<close>

theorem empty_error_parameter_counterexample:
  "searchParams_get (callback_request [(''error'', []), (''code'', ''the-code''), (''state'', ''S'')])
      ''error'' = Some []
   \<and> settled (handler ''S''
        (callback_request [(''error'', []), (''code'', ''the-code''), (''state'', ''S'')])
        start_listener) = Resolved ''the-code''
   \<and> responses (handler ''S''
        (callback_request [(''error'', []), (''code'', ''the-code''), (''state'', ''S'')])
        start_listener) = [(200, success_page)]"
  by (simp add: handler_def Let_def truthy_def js_string_def success_page_def
      searchParams_get_def callback_request_def start_listener_def)

text \<open>
  C3, amended. For a request handled while the wait is pending, the outcome is decided
  by the parameters in the order error, state, code. A present, non-empty \<^verbatim>\<open>error\<close>
  rejects with the provider's message (the spec's ProviderDenied) and answers 400,
  whatever \<^verbatim>\<open>code\<close> is. Otherwise a \<^verbatim>\<open>state\<close> that is not the expected one rejects with
  \<^verbatim>\<open>State mismatch\<close> and answers 400, whatever \<^verbatim>\<open>code\<close> is, so no code is returned.
  Otherwise a present, non-empty \<^verbatim>\<open>code\<close> answers 200 with the success page and resolves
  with the code. Each of the three closes the server.
\<close>

theorem callback_precedence:
  assumes pending: "settled l = Pending"
    and e: "e = searchParams_get req ''error''"
    and s: "s = searchParams_get req ''state''"
    and c: "c = searchParams_get req ''code''"
  shows "(\<forall>m. e = Some m \<and> m \<noteq> [] \<longrightarrow>
            settled (handler st req l) = Rejected (Error m)
            \<and> responses (handler st req l) = responses l @ [(400, ''Error: '' @ m)]
            \<and> \<not> listening (handler st req l))
    \<and> ((e = None \<or> e = Some []) \<and> s \<noteq> Some st \<longrightarrow>
            settled (handler st req l) = Rejected (Error ''State mismatch'')
            \<and> responses (handler st req l) = responses l @ [(400, ''Error: State mismatch'')]
            \<and> \<not> listening (handler st req l))
    \<and> (\<forall>k. (e = None \<or> e = Some []) \<and> s = Some st \<and> c = Some k \<and> k \<noteq> [] \<longrightarrow>
            settled (handler st req l) = Resolved k
            \<and> responses (handler st req l) = responses l @ [(200, success_page)]
            \<and> \<not> listening (handler st req l))"
proof (intro conjI allI impI)
  fix m assume "e = Some m \<and> m \<noteq> []"
  then have h: "handler st req l = reject (Error m) (server_close (respond 400 (''Error: '' @ m) l))"
    using handler_error [of req m st l] e by simp
  show "settled (handler st req l) = Rejected (Error m)" by (simp add: h pending)
  show "responses (handler st req l) = responses l @ [(400, ''Error: '' @ m)]" by (simp add: h)
  show "\<not> listening (handler st req l)" by (simp add: h)
next
  assume "(e = None \<or> e = Some []) \<and> s \<noteq> Some st"
  then have h: "handler st req l =
     reject (Error ''State mismatch'') (server_close (respond 400 ''Error: State mismatch'' l))"
    using handler_mismatch [of req st l] e s by (simp add: falsy_iff)
  show "settled (handler st req l) = Rejected (Error ''State mismatch'')" by (simp add: h pending)
  show "responses (handler st req l) = responses l @ [(400, ''Error: State mismatch'')]"
    by (simp add: h)
  show "\<not> listening (handler st req l)" by (simp add: h)
next
  fix k assume "(e = None \<or> e = Some []) \<and> s = Some st \<and> c = Some k \<and> k \<noteq> []"
  then have h: "handler st req l = resolve k (server_close (respond 200 success_page l))"
    using handler_code [of req st k l] e s c by (simp add: falsy_iff)
  show "settled (handler st req l) = Resolved k" by (simp add: h pending)
  show "responses (handler st req l) = responses l @ [(200, success_page)]" by (simp add: h)
  show "\<not> listening (handler st req l)" by (simp add: h)
qed

theorem callback_precedence_witness:
  "settled (handler ''S'' (callback_request [(''error'', ''access_denied''), (''code'', ''the-code''),
        (''state'', ''S'')]) start_listener) = Rejected (Error ''access_denied'')
   \<and> settled (handler ''S'' (callback_request [(''code'', ''the-code''), (''state'', ''other'')])
        start_listener) = Rejected (Error ''State mismatch'')
   \<and> settled (handler ''S'' (callback_request [(''code'', ''the-code''), (''state'', ''S'')])
        start_listener) = Resolved ''the-code''"
proof -
  have p: "settled start_listener = Pending" by (simp add: start_listener_def)
  let ?r1 = "callback_request [(''error'', ''access_denied''), (''code'', ''the-code''), (''state'', ''S'')]"
  let ?r2 = "callback_request [(''code'', ''the-code''), (''state'', ''other'')]"
  let ?r3 = "callback_request [(''code'', ''the-code''), (''state'', ''S'')]"
  have g: "searchParams_get ?r1 ''error'' = Some ''access_denied''"
    "searchParams_get ?r2 ''error'' = None" "searchParams_get ?r2 ''state'' = Some ''other''"
    "searchParams_get ?r3 ''error'' = None" "searchParams_get ?r3 ''state'' = Some ''S''"
    "searchParams_get ?r3 ''code'' = Some ''the-code''"
    by (simp_all add: searchParams_get_def callback_request_def)
  from callback_precedence [OF p refl refl refl, of ?r1 "''S''"]
    callback_precedence [OF p refl refl refl, of ?r2 "''S''"]
    callback_precedence [OF p refl refl refl, of ?r3 "''S''"]
  show ?thesis by (simp add: g)
qed

section \<open>Requests that are not the callback\<close>




section \<open>The wait and its timer\<close>

lemma handler_settled_once:
  "settled l \<noteq> Pending \<Longrightarrow> settled (handler st req l) = settled l"
  by (simp add: handler_def Let_def)

lemma deliver_settled_once:
  "settled l \<noteq> Pending \<Longrightarrow> settled (deliver st l ev) = settled l"
  by (cases ev) (simp_all add: deliver_def handler_settled_once timeout_callback_def
      split: option.splits)

lemma foldl_deliver_settled_once:
  "settled l \<noteq> Pending \<Longrightarrow> settled (foldl (deliver st) l evs) = settled l"
  by (induction evs arbitrary: l) (simp_all add: deliver_settled_once)

lemma handler_invariant:
  "wait_invariant l \<Longrightarrow> listening l \<Longrightarrow> wait_invariant (handler st req l)"
  by (auto simp: wait_invariant_def handler_def Let_def split: if_splits)

lemma deliver_invariant: "wait_invariant l \<Longrightarrow> wait_invariant (deliver st l ev)"
proof (cases ev)
  case (Request req)
  assume "wait_invariant l"
  then show ?thesis
    using handler_invariant [of l st req] by (simp add: deliver_def Request)
next
  case TimerFired
  assume "wait_invariant l"
  then show ?thesis
    by (auto simp: deliver_def TimerFired timeout_callback_def wait_invariant_def
        split: option.splits if_splits)
qed

lemma foldl_deliver_invariant:
  "wait_invariant l \<Longrightarrow> wait_invariant (foldl (deliver st) l evs)"
  by (induction evs arbitrary: l) (simp_all add: deliver_invariant)

lemma run_listener_invariant: "wait_invariant (run_listener st evs)"
  unfolding run_listener_def
  by (rule foldl_deliver_invariant) (simp add: wait_invariant_def start_listener_def)

lemma handler_timer: "timer (handler st req l) = timer l"
  by (simp add: handler_def Let_def)

lemma foldl_deliver_timer:
  "TimerFired \<notin> set evs \<Longrightarrow> timer (foldl (deliver st) l evs) = timer l"
proof (induction evs arbitrary: l)
  case Nil
  then show ?case by simp
next
  case (Cons ev evs)
  then obtain req where ev: "ev = Request req" by (cases ev) auto
  have "timer (deliver st l ev) = timer l"
    by (simp add: deliver_def ev handler_timer)
  with Cons show ?case by simp
qed

text \<open>
  C5, as stated, fails: the code never calls \<^verbatim>\<open>clearTimeout\<close>. After a callback that
  succeeds the promise is resolved and the timer is still armed.
\<close>

theorem timer_not_cleared_counterexample:
  "settled (run_listener ''S''
       [Request (callback_request [(''code'', ''the-code''), (''state'', ''S'')])])
     = Resolved ''the-code''
   \<and> timer (run_listener ''S''
       [Request (callback_request [(''code'', ''the-code''), (''state'', ''S'')])])
     = Some 300000"
  by (simp add: run_listener_def deliver_def handler_def Let_def truthy_def js_string_def
      searchParams_get_def callback_request_def start_listener_def)

text \<open>
  C5, amended. After any sequence of requests and timer events:
  \<^item> while the wait is pending the server listens and the 5 minute timer is armed, and
    the timer firing then closes the server and rejects with \<^verbatim>\<open>Timeout\<close> (the spec's
    AuthTimeout);
  \<^item> once the wait is settled the server is closed, whichever arm settled it, and no
    later event changes the outcome: there is exactly one;
  \<^item> the timer is never cleared: until it fires it stays armed, also after a callback
    that succeeded (its later rejection is then ignored).
\<close>

theorem callback_wait_one_outcome:
  "(settled (run_listener st evs) = Pending \<longrightarrow>
        listening (run_listener st evs) \<and> timer (run_listener st evs) = Some (5 * 60 * 1000)
        \<and> settled (deliver st (run_listener st evs) TimerFired) = Rejected (Error ''Timeout'')
        \<and> \<not> listening (deliver st (run_listener st evs) TimerFired))
   \<and> (settled (run_listener st evs) \<noteq> Pending \<longrightarrow>
        \<not> listening (run_listener st evs)
        \<and> settled (run_listener st (evs @ later)) = settled (run_listener st evs))
   \<and> (TimerFired \<notin> set evs \<longrightarrow> timer (run_listener st evs) = Some (5 * 60 * 1000))"
proof -
  let ?L = "run_listener st evs"
  have inv: "wait_invariant ?L" by (rule run_listener_invariant)
  have a: "listening ?L \<and> timer ?L = Some (5 * 60 * 1000)
        \<and> settled (deliver st ?L TimerFired) = Rejected (Error ''Timeout'')
        \<and> \<not> listening (deliver st ?L TimerFired)" if "settled ?L = Pending"
    using inv that by (simp add: wait_invariant_def deliver_def timeout_callback_def)
  have b: "\<not> listening ?L \<and> settled (run_listener st (evs @ later)) = settled ?L"
    if "settled ?L \<noteq> Pending"
  proof -
    have "settled (foldl (deliver st) ?L later) = settled ?L"
      by (rule foldl_deliver_settled_once [OF that])
    then have "settled (run_listener st (evs @ later)) = settled ?L"
      by (simp add: run_listener_def)
    with inv that show ?thesis by (simp add: wait_invariant_def)
  qed
  have c: "timer ?L = Some (5 * 60 * 1000)" if "TimerFired \<notin> set evs"
    using foldl_deliver_timer [OF that, of st start_listener]
    by (simp add: run_listener_def start_listener_def)
  from a b c show ?thesis by blast
qed

theorem callback_wait_one_outcome_witness:
  "settled (run_listener ''S'' [Request favicon_request, TimerFired,
       Request (callback_request [(''code'', ''the-code''), (''state'', ''S'')])])
     = Rejected (Error ''State mismatch'')
   \<and> settled (deliver ''S'' (run_listener ''S'' []) TimerFired) = Rejected (Error ''Timeout'')
   \<and> timer (run_listener ''S''
       [Request (callback_request [(''code'', ''the-code''), (''state'', ''S'')])])
     = Some (5 * 60 * 1000)"
proof -
  have s: "settled (run_listener ''S'' [Request favicon_request]) = Rejected (Error ''State mismatch'')"
    "settled (run_listener ''S'' []) = Pending"
    by (simp_all add: run_listener_def deliver_def handler_def Let_def truthy_def
        searchParams_get_def favicon_request_def start_listener_def)
  from callback_wait_one_outcome [of "''S''" "[Request favicon_request]"
      "[TimerFired, Request (callback_request [(''code'', ''the-code''), (''state'', ''S'')])]"]
    callback_wait_one_outcome [of "''S''" "[]" "[]"]
    callback_wait_one_outcome [of "''S''"
      "[Request (callback_request [(''code'', ''the-code''), (''state'', ''S'')])]" "[]"]
  show ?thesis by (simp add: s)
qed

section \<open>performAuth ends the process\<close>

lemma generatePkce_world: "snd (generatePkce w) = w\<lparr>rng_pos := rng_pos w + 32 + 16\<rparr>"
  by (simp add: generatePkce_def generateCodeVerifier_def generateState_def randomBytes_def Let_def)

lemma ensureGitignore_world: "\<exists>g. ensureGitignore w = w\<lparr>gitignore := g\<rparr>"
proof (cases "gitignore w")
  case None
  then show ?thesis by (auto simp: ensureGitignore_def)
next
  case (Some content)
  show ?thesis
  proof (cases "includes_str content gitignore_pattern")
    case True
    then have "ensureGitignore w = w\<lparr>gitignore := gitignore w\<rparr>"
      by (simp add: ensureGitignore_def Some)
    then show ?thesis by blast
  next
    case False
    then show ?thesis by (auto simp: ensureGitignore_def Some)
  qed
qed

text \<open>
  The world when the token exchange starts: only the gitignore file and the position in
  the random stream have changed.
\<close>

lemma before_exchange_world:
  "\<exists>g k. snd (generatePkce (if \<not> global then ensureGitignore w else w))
       = w\<lparr>gitignore := g, rng_pos := k\<rparr>"
proof (cases global)
  case True
  have "snd (generatePkce (if \<not> global then ensureGitignore w else w))
      = w\<lparr>gitignore := gitignore w, rng_pos := rng_pos w + 32 + 16\<rparr>"
    using True by (simp add: generatePkce_world)
  then show ?thesis by blast
next
  case False
  obtain g where g: "ensureGitignore w = w\<lparr>gitignore := g\<rparr>"
    using ensureGitignore_world by blast
  have "snd (generatePkce (if \<not> global then ensureGitignore w else w))
      = w\<lparr>gitignore := g, rng_pos := rng_pos w + 32 + 16\<rparr>"
    using False by (simp add: generatePkce_world g)
  then show ?thesis by blast
qed

lemma exchange_and_save_not_Returned: "fst (exchange_and_save c global code v w) \<noteq> Returned"
  by (simp add: exchange_and_save_def fetch_token_def Date_now_def Let_def split: sum.splits)

lemma exchange_and_save_stdout: "stdout (snd (exchange_and_save c global code v w)) = stdout w"
  by (simp add: exchange_and_save_def fetch_token_def Date_now_def saveToken_def Let_def
      split: sum.splits)

lemma performAuth_cases:
  assumes "w1 = (if \<not> global then ensureGitignore w else w)"
  shows "performAuth global browser events w =
     (case loadCredentials w of
        Inl e \<Rightarrow> (Thrown e, w)
      | Inr credentials \<Rightarrow>
          (case settled (run_listener (state (fst (generatePkce w1))) events) of
             Pending \<Rightarrow> (Waiting, snd (generatePkce w1))
           | Rejected e \<Rightarrow> (Thrown e, snd (generatePkce w1))
           | Resolved code \<Rightarrow>
               exchange_and_save credentials global code (verifier (fst (generatePkce w1)))
                 (snd (generatePkce w1))))"
  unfolding performAuth_def Let_def assms [symmetric]
  by (simp add: case_prod_beta split: sum.splits)

lemma performAuth_not_Returned: "fst (performAuth global browser events w) \<noteq> Returned"
  by (simp add: performAuth_cases [OF refl] exchange_and_save_not_Returned
      split: sum.splits promise.splits)

lemma performAuth_stdout: "stdout (snd (performAuth global browser events w)) = stdout w"
proof -
  define w1 where "w1 = (if \<not> global then ensureGitignore w else w)"
  obtain g k where w2: "snd (generatePkce w1) = w\<lparr>gitignore := g, rng_pos := k\<rparr>"
    using before_exchange_world [of global w] unfolding w1_def by blast
  show ?thesis
    by (simp add: performAuth_cases [OF w1_def] w2 exchange_and_save_stdout
        split: sum.splits promise.splits)
qed

text \<open>
  C10. \<^verbatim>\<open>performAuth\<close> never returns to its caller: it throws, or the process exits
  inside it, or it is still waiting. On a successful authentication (credentials load,
  the wait resolves with a code, the token endpoint answers without an error field) it
  ends in \<^verbatim>\<open>process.exit(0)\<close> with the record written at the path of the requested
  scope. So the auth command of the CLI never returns either, and the JSON output that
  follows the call in \<^verbatim>\<open>main\<close> is never printed: standard output is what it was.
\<close>

theorem performAuth_exits_on_success:
  assumes pk: "pk = fst (generatePkce (if \<not> global then ensureGitignore w else w))"
  shows "fst (performAuth global browser events w) \<noteq> Returned
    \<and> fst (main_auth args events w) \<noteq> Returned
    \<and> stdout (snd (main_auth args events w)) = stdout w
    \<and> (\<forall>c code d. loadCredentials w = Inr c
          \<and> settled (run_listener (state pk) events) = Resolved code
          \<and> provider w (exchange_form c code (verifier pk)) = Inr d
          \<and> \<not> truthy (resp_error d) \<longrightarrow>
        fst (performAuth global browser events w) = Exited 0
        \<and> (\<exists>td. token_files (snd (performAuth global browser events w))
                   (if global then getGlobalTokenPath w else getProjectTokenPath w) = Some td
               \<and> access_token td = resp_access_token d))"
proof -
  have nr: "fst (performAuth g b events w) \<noteq> Returned" for g b
    by (rule performAuth_not_Returned)
  have m1: "fst (main_auth args events w) \<noteq> Returned"
    using nr [of "''--global'' \<in> set args" "arg_after args ''--browser''"]
    by (auto simp: main_auth_def Let_def split: prod.splits completion.splits)
  have m2: "stdout (snd (main_auth args events w)) = stdout w"
    using nr [of "''--global'' \<in> set args" "arg_after args ''--browser''"]
      performAuth_stdout [of "''--global'' \<in> set args" "arg_after args ''--browser''" events w]
    by (auto simp: main_auth_def Let_def split: prod.splits completion.splits)
  have ok: "fst (performAuth global browser events w) = Exited 0
        \<and> (\<exists>td. token_files (snd (performAuth global browser events w))
                   (if global then getGlobalTokenPath w else getProjectTokenPath w) = Some td
               \<and> access_token td = resp_access_token d)"
    if c: "loadCredentials w = Inr c"
      and r: "settled (run_listener (state pk) events) = Resolved code"
      and p: "provider w (exchange_form c code (verifier pk)) = Inr d"
      and ne: "\<not> truthy (resp_error d)" for c code d
  proof -
    define w1 where "w1 = (if \<not> global then ensureGitignore w else w)"
    obtain g k where w2: "snd (generatePkce w1) = w\<lparr>gitignore := g, rng_pos := k\<rparr>"
      using before_exchange_world [of global w] unfolding w1_def by blast
    let ?w2 = "w\<lparr>gitignore := g, rng_pos := k\<rparr>"
    have pk1: "fst (generatePkce w1) = pk" by (simp add: pk w1_def)
    have pa: "performAuth global browser events w =
        exchange_and_save c global code (verifier pk) ?w2"
      using r by (simp add: performAuth_cases [OF w1_def] c pk1 w2)
    have p2: "provider ?w2 (exchange_form c code (verifier pk)) = Inr d" using p by simp
    let ?td = "exchange_tokenData d (clock ?w2 (clock_reads ?w2))"
    have es: "exchange_and_save c global code (verifier pk) ?w2 =
       (Exited 0, saveToken ?td global
          (?w2\<lparr>requests := requests ?w2 @ [exchange_form c code (verifier pk)],
               clock_reads := Suc (clock_reads ?w2)\<rparr>))"
      by (rule exchange_and_save_success [OF p2 ne])
    have "token_files (snd (performAuth global browser events w))
        (if global then getGlobalTokenPath w else getProjectTokenPath w) = Some ?td"
      by (simp add: pa es saveToken_def Let_def)
    moreover have "access_token ?td = resp_access_token d"
      by (simp add: exchange_tokenData_def)
    moreover have "fst (performAuth global browser events w) = Exited 0"
      by (simp add: pa es)
    ultimately show ?thesis by blast
  qed
  from nr [of global browser] m1 m2 ok show ?thesis by blast
qed

section \<open>PKCE material\<close>

lemma generatePkce_fields:
  "verifier (fst (generatePkce w)) = base64url (map (rng w) [rng_pos w ..< rng_pos w + 32])"
  "state (fst (generatePkce w)) = hex_encode (map (rng w) [rng_pos w + 32 ..< rng_pos w + 32 + 16])"
  "challenge (fst (generatePkce w)) = generateCodeChallenge (verifier (fst (generatePkce w)))"
  by (simp_all add: generatePkce_def generateCodeVerifier_def generateState_def randomBytes_def
      Let_def)

lemma demo_rng [simp]:
  "rng (answering_world d) = of_nat" "rng_pos (answering_world d) = 0"
  "rng demo_world = of_nat" "rng_pos demo_world = 0"
  by (simp_all add: answering_world_def demo_world_def fun_eq_iff)

lemma ensureGitignore_rng [simp]:
  "rng (ensureGitignore w) = rng w" "rng_pos (ensureGitignore w) = rng_pos w"
proof -
  obtain g where "ensureGitignore w = w\<lparr>gitignore := g\<rparr>"
    using ensureGitignore_world by blast
  then show "rng (ensureGitignore w) = rng w" "rng_pos (ensureGitignore w) = rng_pos w"
    by simp_all
qed

lemma demo_pkce:
  "state (fst (generatePkce (ensureGitignore (answering_world d)))) = demo_state"
  "verifier (fst (generatePkce (ensureGitignore (answering_world d)))) = demo_verifier"
  "state (fst (generatePkce demo_world)) = demo_state"
  "verifier (fst (generatePkce demo_world)) = demo_verifier"
  by (simp_all add: generatePkce_fields demo_state_def demo_verifier_def upt_conv_Cons
      hex_encode_def hex_digit_def hex_digits_def b64url_char_def b64url_alphabet_def unat_of_nat)

lemma answering_world_facts [simp]:
  "loadCredentials (answering_world d) = Inr demo_credentials"
  "provider (answering_world d) f = Inr d"
  "stdout (answering_world d) = []"
  "getProjectTokenPath (answering_world d) = demo_project_path"
proof -
  show "loadCredentials (answering_world d) = Inr demo_credentials"
    by (simp add: answering_world_def loadCredentials_def credentials_from_file_def
        demo_world_def demo_creds_def demo_credentials_def truthy_def js_string_def)
  show "provider (answering_world d) f = Inr d" by (simp add: answering_world_def)
  show "stdout (answering_world d) = []" by (simp add: answering_world_def demo_world_def)
  show "getProjectTokenPath (answering_world d) = demo_project_path"
    by (simp add: answering_world_def)
qed

theorem performAuth_exits_on_success_witness:
  "fst (performAuth False None
       [Request (callback_request [(''code'', ''the-code''), (''state'', demo_state)])]
       (answering_world demo_response)) = Exited 0
   \<and> map_option access_token (token_files (snd (performAuth False None
       [Request (callback_request [(''code'', ''the-code''), (''state'', demo_state)])]
       (answering_world demo_response))) demo_project_path) = Some (Some ''access-new'')
   \<and> stdout (snd (main_auth [''auth'']
       [Request (callback_request [(''code'', ''the-code''), (''state'', demo_state)])]
       (answering_world demo_response))) = []"
proof -
  let ?w = "answering_world demo_response"
  let ?evs = "[Request (callback_request [(''code'', ''the-code''), (''state'', demo_state)])]"
  let ?pk = "fst (generatePkce (if \<not> False then ensureGitignore ?w else ?w))"
  have st: "state ?pk = demo_state" "verifier ?pk = demo_verifier"
    by (simp_all add: demo_pkce)
  have r: "settled (run_listener (state ?pk) ?evs) = Resolved ''the-code''"
    unfolding st
    by (simp add: run_listener_def deliver_def handler_def Let_def truthy_def js_string_def
        searchParams_get_def callback_request_def start_listener_def)
  have ne: "\<not> truthy (resp_error demo_response)" "resp_access_token demo_response = Some ''access-new''"
    by (simp_all add: demo_response_def truthy_def)
  from performAuth_exits_on_success [OF refl, where global = False and w = ?w and browser = None
      and events = ?evs and args = "[''auth'']"] r ne
  show ?thesis
    by auto
qed

section \<open>The encodings\<close>

lemma b64url_char_in: "b64url_char n \<in> set b64url_alphabet"
proof -
  have "length b64url_alphabet = 64" by (simp add: b64url_alphabet_def)
  then have "n mod 64 < length b64url_alphabet" by simp
  then show ?thesis unfolding b64url_char_def by (rule nth_mem)
qed

lemma set_base64url: "set (base64url bs) \<subseteq> set b64url_alphabet"
  by (induction bs rule: base64url.induct) (simp_all add: Let_def b64url_char_in)

lemma length_base64url: "length (base64url bs) = (4 * length bs + 2) div 3"
  by (induction bs rule: base64url.induct) (simp_all add: Let_def)

lemma no_padding_char: "CHR ''='' \<notin> set b64url_alphabet"
  by (simp add: b64url_alphabet_def)

lemma b64url_alphabet_ascii: "c \<in> set b64url_alphabet \<Longrightarrow> (of_char c :: 8 word) < 128"
  by (auto simp: b64url_alphabet_def)

lemma hex_digit_in: "hex_digit n \<in> set hex_digits"
proof -
  have "length hex_digits = 16" by (simp add: hex_digits_def)
  then have "n mod 16 < length hex_digits" by simp
  then show ?thesis unfolding hex_digit_def by (rule nth_mem)
qed

lemma set_hex_encode: "set (hex_encode bs) \<subseteq> set hex_digits"
  by (auto simp: hex_encode_def hex_digit_in)

lemma length_hex_encode: "length (hex_encode bs) = 2 * length bs"
  by (induction bs) (simp_all add: hex_encode_def)

lemma length_word_bytes: "length (word_bytes x) = 4"
  by (simp add: word_bytes_def)

lemma length_state_bytes: "length (state_bytes s) = 32"
  by (induction s rule: state_bytes.induct) (simp add: length_word_bytes)

lemma length_sha256: "length (sha256 m) = 32"
  by (simp add: sha256_def length_state_bytes)

text \<open>
  C1. The PKCE material of an authorization attempt, \<open>vb\<close> being the 32 bytes and \<open>sb\<close>
  the next 16 bytes drawn from the random source:
  \<^item> the verifier is the base64url encoding of \<open>vb\<close>: 43 characters of the URL-safe
    alphabet, with no padding character;
  \<^item> the state is the hexadecimal encoding of \<open>sb\<close>: 32 hexadecimal digits;
  \<^item> the challenge is the base64url encoding, again 43 characters with no padding, of
    the SHA-256 digest of the bytes of the verifier string: 43 ASCII bytes, which are not
    the 32 raw bytes \<open>vb\<close>.
\<close>

theorem pkce_parameters_encoding:
  assumes pk: "pk = fst (generatePkce w)"
    and vb: "vb = map (rng w) [rng_pos w ..< rng_pos w + 32]"
    and sb: "sb = map (rng w) [rng_pos w + 32 ..< rng_pos w + 32 + 16]"
  shows "length vb = 32 \<and> verifier pk = base64url vb
    \<and> length (verifier pk) = 43
    \<and> (\<forall>c\<in>set (verifier pk). c \<in> set b64url_alphabet) \<and> CHR ''='' \<notin> set (verifier pk)
    \<and> length sb = 16 \<and> state pk = hex_encode sb
    \<and> length (state pk) = 32 \<and> (\<forall>c\<in>set (state pk). c \<in> set hex_digits)
    \<and> challenge pk = base64url (sha256 (utf8_bytes (verifier pk)))
    \<and> length (utf8_bytes (verifier pk)) = 43
    \<and> (\<forall>b\<in>set (utf8_bytes (verifier pk)). b < 128)
    \<and> utf8_bytes (verifier pk) \<noteq> vb
    \<and> length (challenge pk) = 43
    \<and> (\<forall>c\<in>set (challenge pk). c \<in> set b64url_alphabet) \<and> CHR ''='' \<notin> set (challenge pk)"
proof -
  have lv: "length vb = 32" and ls: "length sb = 16" by (simp_all add: vb sb)
  have v: "verifier pk = base64url vb"
    by (simp add: pk vb generatePkce_fields)
  have s: "state pk = hex_encode sb"
    by (simp add: pk sb generatePkce_fields)
  have c: "challenge pk = base64url (sha256 (utf8_bytes (verifier pk)))"
    by (simp add: pk generatePkce_fields generateCodeChallenge_def)
  have len_v: "length (verifier pk) = 43"
    by (simp add: v length_base64url lv)
  have set_v: "\<forall>c\<in>set (verifier pk). c \<in> set b64url_alphabet"
    using set_base64url [of vb] by (auto simp: v)
  have pad_v: "CHR ''='' \<notin> set (verifier pk)"
    using set_v no_padding_char by blast
  have len_s: "length (state pk) = 32"
    by (simp add: s length_hex_encode ls)
  have set_s: "\<forall>c\<in>set (state pk). c \<in> set hex_digits"
    using set_hex_encode [of sb] by (auto simp: s)
  have len_u: "length (utf8_bytes (verifier pk)) = 43"
    by (simp add: utf8_bytes_def len_v)
  have ascii: "\<forall>b\<in>set (utf8_bytes (verifier pk)). b < 128"
    using set_v by (auto simp: utf8_bytes_def b64url_alphabet_ascii)
  have raw: "utf8_bytes (verifier pk) \<noteq> vb"
    using len_u lv by auto
  have len_c: "length (challenge pk) = 43"
    by (simp add: c length_base64url length_sha256)
  have set_c: "\<forall>c\<in>set (challenge pk). c \<in> set b64url_alphabet"
    using set_base64url [of "sha256 (utf8_bytes (verifier pk))"] by (auto simp: c)
  have pad_c: "CHR ''='' \<notin> set (challenge pk)"
    using set_c no_padding_char by blast
  from lv v len_v set_v pad_v ls s len_s set_s c len_u ascii raw len_c set_c pad_c
  show ?thesis by blast
qed

section \<open>Evaluating SHA-256\<close>

text \<open>
  Lemmas that let the simplifier run the hash on a concrete message: a rotation as
  arithmetic on the value of the word, and the recursion of the schedule on numerals.
\<close>

lemma push_low:
  "n \<le> 32 \<Longrightarrow> push_bit (32 - n) x = push_bit (32 - n) (take_bit n x)" for x :: "32 word"
  by (rule bit_word_eqI) (auto simp: bit_simps)

lemma rotr_disjoint:
  "n \<le> 32 \<Longrightarrow> drop_bit n x AND push_bit (32 - n) (take_bit n x) = 0" for x :: "32 word"
  by (rule bit_word_eqI) (auto simp: bit_simps dest: bit_imp_le_length)

lemma rotr_eval:
  assumes "n \<le> 32"
  shows "rotr n x = word_of_nat (unat x div 2 ^ n + unat x mod 2 ^ n * 2 ^ (32 - n))"
proof -
  have "rotr n x = drop_bit n x OR push_bit (32 - n) (take_bit n x)"
    using push_low [OF assms, of x] by (simp add: rotr_def)
  also have "\<dots> = drop_bit n x + push_bit (32 - n) (take_bit n x)"
    using rotr_disjoint [OF assms, of x] by (simp add: disjunctive_add_eq_or)
  also have "drop_bit n x = word_of_nat (unat x div 2 ^ n)"
    by (metis drop_bit_eq_div of_nat_unat ucast_id unat_drop_bit_eq)
  also have "push_bit (32 - n) (take_bit n x) = word_of_nat (unat x mod 2 ^ n * 2 ^ (32 - n))"
    by (metis (no_types, lifting) of_nat_mult of_nat_numeral of_nat_power
        push_bit_eq_mult take_bit_eq_mod unat_mod unsigned_take_bit_eq word_arith_nat_mod)
  finally show ?thesis by simp
qed

lemma replicate_numeral: "replicate (numeral k) x = x # replicate (pred_numeral k) x"
  by (simp add: numeral_eq_Suc)

lemma expand_numeral:
  "expand (numeral k) ws =
     expand (pred_numeral k) (ws @ [sigma1 (ws ! (length ws - 2)) + ws ! (length ws - 7)
                          + sigma0 (ws ! (length ws - 15)) + ws ! (length ws - 16)])"
  by (simp add: numeral_eq_Suc Let_def)

lemma expand_one:
  "expand (Suc 0) ws =
     (ws @ [sigma1 (ws ! (length ws - 2)) + ws ! (length ws - 7)
                          + sigma0 (ws ! (length ws - 15)) + ws ! (length ws - 16)])"
  by (simp add: Let_def)

text \<open>The FIPS 180-4 example: the digest of the message \<^verbatim>\<open>abc\<close>.\<close>

lemma abc_pad:
  "sha256_pad (utf8_bytes ''abc'') =
     [97, 98, 99, 128, 0, 0, 0, 0, 0, 0, 0, 0, 0, 0, 0, 0,
      0, 0, 0, 0, 0, 0, 0, 0, 0, 0, 0, 0, 0, 0, 0, 0,
      0, 0, 0, 0, 0, 0, 0, 0, 0, 0, 0, 0, 0, 0, 0, 0,
      0, 0, 0, 0, 0, 0, 0, 0, 0, 0, 0, 0, 0, 0, 0, 24]"
  by (simp add: sha256_pad_def utf8_bytes_def length_bytes_def upt_conv_Cons replicate_numeral)

lemma abc_schedule:
  "expand 48 (be_words (sha256_pad (utf8_bytes ''abc''))) =
     [1633837952, 0, 0, 0, 0, 0,
      0, 0, 0, 0, 0, 0,
      0, 0, 0, 24, 1633837952, 983040,
      2108187653, 1610613702, 1050508152, 25426944, 316456923, 3806512014,
      3357629466, 3073800610, 3854317833, 845560923, 2636160359, 3968280267,
      1881225380, 3552024379, 2482346367, 996719219, 2952069057, 4043988066,
      176896406, 1924104970, 2483675966, 610538786, 2672279444, 4037431130,
      1042573945, 657669027, 206005234, 2215296807, 2049510749, 106709978,
      4215179723, 3430291419, 3118885940, 2845390439, 2226839261, 3256115900,
      344409900, 2987358873, 4015503821, 3957764664, 2682456414, 2025622859,
      2755645205, 1720397816, 4004225740, 313650667]"
  unfolding abc_pad
  by (simp add: expand_numeral expand_one sigma0_def sigma1_def rotr_eval del: expand.simps)

lemma abc_rounds:
  "foldl sha_round H256 (zip K256 (expand 48 (be_words (sha256_pad (utf8_bytes ''abc''))))) =
     (1349398616, 3550093669, 80891244, 3093179625,
      1593118500, 4212265488, 2492278198, 2518632596)"
  unfolding abc_schedule
  by (simp add: K256_def H256_def Let_def Sigma0_def Sigma1_def Ch_def Maj_def rotr_eval)

lemma abc_digest:
  "sha256 (utf8_bytes ''abc'') =
     [186, 120, 22, 191, 143, 1, 207, 234, 65, 65, 64, 222, 93, 174, 34, 35,
      176, 3, 97, 163, 150, 23, 122, 156, 180, 16, 255, 97, 242, 0, 21, 173]"
proof -
  have "chunks 64 (sha256_pad (utf8_bytes ''abc'')) = [sha256_pad (utf8_bytes ''abc'')]"
    unfolding abc_pad by simp
  then show ?thesis
    by (simp add: sha256_def compress_def abc_rounds)
       (simp add: H256_def word_bytes_def)
qed

text \<open>The digest of the verifier of the demo world, and its challenge.\<close>

lemma demo_pad:
  "sha256_pad (utf8_bytes ''AAECAwQFBgcICQoLDA0ODxAREhMUFRYXGBkaGxwdHh8'') =
     [65, 65, 69, 67, 65, 119, 81, 70, 66, 103, 99, 73, 67, 81, 111, 76,
      68, 65, 48, 79, 68, 120, 65, 82, 69, 104, 77, 85, 70, 82, 89, 88,
      71, 66, 107, 97, 71, 120, 119, 100, 72, 104, 56, 128, 0, 0, 0, 0,
      0, 0, 0, 0, 0, 0, 0, 0, 0, 0, 0, 0, 0, 0, 1, 88]"
  by (simp add: sha256_pad_def utf8_bytes_def length_bytes_def upt_conv_Cons replicate_numeral)

lemma demo_schedule:
  "expand 48 (be_words (sha256_pad (utf8_bytes ''AAECAwQFBgcICQoLDA0ODxAREhMUFRYXGBkaGxwdHh8''))) =
     [1094796611, 1098338630, 1114071881, 1129410380, 1145122895, 1148731730,
      1164463445, 1179801944, 1195535201, 1199077220, 1214789760, 0,
      0, 0, 0, 344, 3652669822, 3431005180,
      1347280229, 2149041331, 1436461917, 282754996, 4098471056, 3773890601,
      3731082745, 1068370538, 1744062785, 437673725, 3194741194, 3639697518,
      507155026, 2907344239, 331369486, 60238577, 538226439, 3380193354,
      3872619565, 1652100840, 2199189412, 3060906275, 403775601, 3887866704,
      1416117940, 296247211, 3627230297, 2207939048, 887510832, 1184985833,
      96018630, 280691256, 3437702876, 455647734, 2082899863, 1085276879,
      2630286477, 1720155777, 2158572720, 1924485929, 1887173078, 4082931305,
      4223626012, 3982463686, 2065965107, 3336141744]"
  unfolding demo_pad
  by (simp add: expand_numeral expand_one sigma0_def sigma1_def rotr_eval del: expand.simps)

lemma demo_rounds:
  "foldl sha_round H256 (zip K256 (expand 48 (be_words (sha256_pad (utf8_bytes ''AAECAwQFBgcICQoLDA0ODxAREhMUFRYXGBkaGxwdHh8''))))) =
     (2155643918, 3269757493, 2201558794, 424299363,
      3977330977, 1961615363, 3618775886, 3150918327)"
  unfolding demo_schedule
  by (simp add: K256_def H256_def Let_def Sigma0_def Sigma1_def Ch_def Maj_def rotr_eval)

lemma demo_digest:
  "sha256 (utf8_bytes ''AAECAwQFBgcICQoLDA0ODxAREhMUFRYXGBkaGxwdHh8'') =
     [234, 134, 106, 117, 126, 76, 56, 186, 191, 168, 18, 124, 190, 154, 64, 157,
      62, 31, 147, 160, 15, 241, 72, 143, 247, 53, 252, 249, 23, 175, 255, 208]"
proof -
  have "chunks 64 (sha256_pad (utf8_bytes ''AAECAwQFBgcICQoLDA0ODxAREhMUFRYXGBkaGxwdHh8'')) = [sha256_pad (utf8_bytes ''AAECAwQFBgcICQoLDA0ODxAREhMUFRYXGBkaGxwdHh8'')]"
    unfolding demo_pad by simp
  then show ?thesis
    by (simp add: sha256_def compress_def demo_rounds)
       (simp add: H256_def word_bytes_def)
qed

lemma demo_challenge:
  "generateCodeChallenge demo_verifier = ''6oZqdX5MOLq_qBJ8vppAnT4fk6AP8UiP9zX8-Rev_9A''"
  unfolding generateCodeChallenge_def demo_verifier_def demo_digest
  by (simp add: b64url_char_def b64url_alphabet_def)

theorem pkce_parameters_encoding_witness:
  "verifier (fst (generatePkce demo_world)) = ''AAECAwQFBgcICQoLDA0ODxAREhMUFRYXGBkaGxwdHh8''
   \<and> state (fst (generatePkce demo_world)) = ''202122232425262728292a2b2c2d2e2f''
   \<and> challenge (fst (generatePkce demo_world)) = ''6oZqdX5MOLq_qBJ8vppAnT4fk6AP8UiP9zX8-Rev_9A''"
proof -
  have c: "generateCodeChallenge demo_verifier = base64url (sha256 (utf8_bytes demo_verifier))"
    by (simp add: generateCodeChallenge_def)
  from pkce_parameters_encoding [OF refl refl refl, of demo_world]
  show ?thesis
    by (simp add: demo_pkce demo_challenge [unfolded c]) (simp add: demo_verifier_def demo_state_def)
qed

end
